theory Spec2Isabelle
  imports Main "HOL-Library.AList"
begin

section \<open>JavaScript values that reach the modal\<close>

text \<open>
  The arguments of \<open>openModal\<close> are read from \<open>dataset\<close>, so each is a string or
  \<open>undefined\<close>; \<open>null\<close> is kept as well because the two string conversions below
  differ on it. A template literal applies \<open>ToString\<close>; the \<open>innerText\<close> setter
  takes a DOMString whose conversion maps \<open>null\<close> to the empty string.
\<close>

datatype jsval = Undefined | Null | Str string

fun ToString :: "jsval \<Rightarrow> string" where
  "ToString Undefined = ''undefined''"
| "ToString Null = ''null''"
| "ToString (Str s) = s"

fun innerText_arg :: "jsval \<Rightarrow> string" where
  "innerText_arg Undefined = ''undefined''"
| "innerText_arg Null = ''''"
| "innerText_arg (Str s) = s"

section \<open>The page: document, storage, media query, registered handlers\<close>

text \<open>
  An element is known by its handle, its index in the list \<open>elements\<close>, which lists
  the elements of the document in document order. \<open>parentNode\<close> is the handle of the
  parent element; \<open>isConnected\<close> says whether the element is in the document. The
  \<open>id\<close>, \<open>class\<close> and \<open>data-*\<close> attributes live in \<open>attributes\<close>.
  \<open>content_text\<close> is the text the element holds, as the string its Text and
  \<open>br\<close> children were made from; \<open>style.display\<close> is a property of its own.

  What the browser provides is taken as given: \<open>localStorage\<close>, \<open>matchMedia\<close> and
  \<open>document.head\<close> exist, and the target of a click is an element. A lookup that
  finds nothing returns \<open>null\<close>, and a property access on \<open>null\<close> is a
  \<open>TypeError\<close>.
\<close>

record element =
  parentNode :: "nat option"
  isConnected :: bool
  localName :: string
  attributes :: "(string \<times> string) list"
  content_text :: string
  style_display :: string

datatype error = TypeError

datatype event_target = OnElement nat | OnDocument | OnWindow

text \<open>
  The function expressions of the script, named by the place they are installed at:
  line 10 (\<open>CloseClick\<close>), line 14 (\<open>BackdropClick\<close>), line 22 (\<open>EscapeKey\<close>),
  line 42 (\<open>ThemeClick\<close>, a closure over the constant \<open>themeToggle\<close>) and line 57
  (\<open>CardClick\<close>).
\<close>

datatype listener = CloseClick | BackdropClick | EscapeKey | ThemeClick nat | CardClick

text \<open>
  \<open>openModal_calls\<close> is a history variable: the source has no such variable; every
  entry into \<open>openModal\<close> appends its four arguments, so that the number of
  invocations can be stated.
\<close>

record page =
  elements :: "element list"
  body :: nat
  localStorage :: "(string \<times> string) list"
  prefersDark :: bool
  onclick :: "(event_target \<times> listener) list"
  listeners :: "(event_target \<times> string \<times> listener) list"
  head_styles :: "string list"
  openModal_calls :: "(jsval \<times> jsval \<times> jsval \<times> jsval) list"

record mouse_event =
  target :: nat

record keyboard_event =
  key :: string

text \<open>
  An uncaught exception ends the running function but undoes nothing: the fault carries
  the page as it was when the exception was thrown.
\<close>

type_synonym result = "(error \<times> page) + page"

definition page_of :: "result \<Rightarrow> page" where
  "page_of r = (case r of Inl (e, p) \<Rightarrow> p | Inr p \<Rightarrow> p)"

text \<open>Statements run in order; the first fault ends the sequence.\<close>

fun run :: "(page \<Rightarrow> result) list \<Rightarrow> page \<Rightarrow> result" where
  "run [] p = Inr p"
| "run (s # ss) p = (case s p of Inl f \<Rightarrow> Inl f | Inr p' \<Rightarrow> run ss p')"

subsection \<open>Attributes, classes, selectors\<close>

definition getAttribute :: "element \<Rightarrow> string \<Rightarrow> string option" where
  "getAttribute e k = map_of (attributes e) k"

definition setAttribute :: "string \<Rightarrow> string \<Rightarrow> element \<Rightarrow> element" where
  "setAttribute k v e = e\<lparr>attributes := AList.update k v (attributes e)\<rparr>"

definition className :: "element \<Rightarrow> string" where
  "className e = (case getAttribute e ''class'' of None \<Rightarrow> '''' | Some s \<Rightarrow> s)"

definition is_ascii_whitespace :: "char \<Rightarrow> bool" where
  "is_ascii_whitespace c = (c \<in> set [CHR 0x09, CHR 0x0A, CHR 0x0C, CHR 0x0D, CHR 0x20])"

fun tokens :: "string \<Rightarrow> string \<Rightarrow> string list" where
  "tokens cur [] = (if cur = [] then [] else [cur])"
| "tokens cur (c # cs) =
     (if is_ascii_whitespace c
      then (if cur = [] then tokens [] cs else cur # tokens [] cs)
      else tokens (cur @ [c]) cs)"

definition classList :: "element \<Rightarrow> string list" where
  "classList e = tokens [] (className e)"

definition dataset :: "element \<Rightarrow> string \<Rightarrow> jsval" where
  "dataset e name = (case getAttribute e (''data-'' @ name) of None \<Rightarrow> Undefined | Some v \<Rightarrow> Str v)"

datatype selector = ByClass string | ByTag string

fun matches :: "selector \<Rightarrow> element \<Rightarrow> bool" where
  "matches (ByClass c) e = (c \<in> set (classList e))"
| "matches (ByTag t) e = (localName e = t)"

subsection \<open>Lookups in the document\<close>

definition getElementById :: "string \<Rightarrow> page \<Rightarrow> nat option" where
  "getElementById i p =
     List.find (\<lambda>h. isConnected (elements p ! h) \<and> getAttribute (elements p ! h) ''id'' = Some i)
       [0..<length (elements p)]"

definition querySelector :: "selector \<Rightarrow> page \<Rightarrow> nat option" where
  "querySelector sel p =
     List.find (\<lambda>h. isConnected (elements p ! h) \<and> matches sel (elements p ! h))
       [0..<length (elements p)]"

text \<open>
  The chain from an element up through its parents, the element itself first. The walk is
  bounded by the number of elements. In document order a parent comes before its
  children (\<open>parents_precede\<close> below); the walk from element \<open>h\<close> then ends
  within \<open>h + 1\<close> steps, so the bound cuts nothing off
  (\<open>inclusive_ancestors_complete\<close>).
\<close>

fun ancestors_upto :: "nat \<Rightarrow> element list \<Rightarrow> nat \<Rightarrow> nat list" where
  "ancestors_upto 0 es h = []"
| "ancestors_upto (Suc n) es h =
     (if h < length es
      then h # (case parentNode (es ! h) of None \<Rightarrow> [] | Some q \<Rightarrow> ancestors_upto n es q)
      else [])"

definition inclusive_ancestors :: "page \<Rightarrow> nat \<Rightarrow> nat list" where
  "inclusive_ancestors p h = ancestors_upto (length (elements p)) (elements p) h"

definition parents_precede :: "element list \<Rightarrow> bool" where
  "parents_precede es =
     list_all (\<lambda>h. case parentNode (es ! h) of None \<Rightarrow> True | Some q \<Rightarrow> q < h) [0..<length es]"

definition closest :: "selector \<Rightarrow> nat \<Rightarrow> page \<Rightarrow> nat option" where
  "closest sel h p = List.find (\<lambda>a. matches sel (elements p ! a)) (inclusive_ancestors p h)"

definition element_querySelector :: "nat \<Rightarrow> selector \<Rightarrow> page \<Rightarrow> nat option" where
  "element_querySelector root sel p =
     List.find (\<lambda>h. h \<noteq> root \<and> root \<in> set (inclusive_ancestors p h) \<and> matches sel (elements p ! h))
       [0..<length (elements p)]"

definition document_body :: "page \<Rightarrow> nat option" where
  "document_body p = (if body p < length (elements p) then Some (body p) else None)"

definition getItem :: "string \<Rightarrow> page \<Rightarrow> string option" where
  "getItem k p = map_of (localStorage p) k"

subsection \<open>Assignments through a reference that may be null\<close>

definition update_element :: "nat \<Rightarrow> (element \<Rightarrow> element) \<Rightarrow> page \<Rightarrow> page" where
  "update_element h f p = p\<lparr>elements := (elements p)[h := f (elements p ! h)]\<rparr>"

definition assign :: "nat option \<Rightarrow> (element \<Rightarrow> element) \<Rightarrow> page \<Rightarrow> result" where
  "assign x f p = (case x of None \<Rightarrow> Inl (TypeError, p) | Some h \<Rightarrow> Inr (update_element h f p))"

text \<open>
  \<open>inside p d a\<close>: element \<open>d\<close> lies inside element \<open>a\<close>.
\<close>

definition inside :: "page \<Rightarrow> nat \<Rightarrow> nat \<Rightarrow> bool" where
  "inside p d a = (d \<noteq> a \<and> a \<in> set (inclusive_ancestors p d))"

text \<open>
  Assigning to \<open>innerText\<close> replaces all children of the element by the text. Every
  element that was inside it leaves the document, and its former children have no
  parent any more; what lies deeper keeps its parent.
\<close>

definition set_innerText_at :: "nat \<Rightarrow> string \<Rightarrow> page \<Rightarrow> page" where
  "set_innerText_at h v p =
     p\<lparr>elements :=
         map (\<lambda>d. if d = h then (elements p ! d)\<lparr>content_text := v\<rparr>
                   else if inside p d h
                   then (elements p ! d)
                          \<lparr>parentNode := (if parentNode (elements p ! d) = Some h then None
                                          else parentNode (elements p ! d)),
                           isConnected := False\<rparr>
                   else elements p ! d)
             [0..<length (elements p)]\<rparr>"

definition set_innerText :: "nat option \<Rightarrow> string \<Rightarrow> page \<Rightarrow> result" where
  "set_innerText x v p =
     (case x of None \<Rightarrow> Inl (TypeError, p) | Some h \<Rightarrow> Inr (set_innerText_at h v p))"

definition set_style_display :: "nat option \<Rightarrow> string \<Rightarrow> page \<Rightarrow> result" where
  "set_style_display x v p = assign x (\<lambda>e. e\<lparr>style_display := v\<rparr>) p"

definition set_className :: "nat option \<Rightarrow> string \<Rightarrow> page \<Rightarrow> result" where
  "set_className x v p = assign x (setAttribute ''class'' v) p"

definition call_setAttribute :: "nat option \<Rightarrow> string \<Rightarrow> string \<Rightarrow> page \<Rightarrow> result" where
  "call_setAttribute x k v p = assign x (setAttribute k v) p"

definition setItem :: "string \<Rightarrow> string \<Rightarrow> page \<Rightarrow> result" where
  "setItem k v p = Inr (p\<lparr>localStorage := AList.update k v (localStorage p)\<rparr>)"

definition set_onclick :: "event_target option \<Rightarrow> listener \<Rightarrow> page \<Rightarrow> result" where
  "set_onclick x l p =
     (case x of None \<Rightarrow> Inl (TypeError, p)
      | Some t \<Rightarrow> Inr (p\<lparr>onclick := AList.update t l (onclick p)\<rparr>))"

definition addEventListener :: "event_target option \<Rightarrow> string \<Rightarrow> listener \<Rightarrow> page \<Rightarrow> result" where
  "addEventListener x ty l p =
     (case x of None \<Rightarrow> Inl (TypeError, p)
      | Some t \<Rightarrow> Inr (p\<lparr>listeners := listeners p @ [(t, ty, l)]\<rparr>))"

definition head_appendStyle :: "string \<Rightarrow> page \<Rightarrow> result" where
  "head_appendStyle css p = Inr (p\<lparr>head_styles := head_styles p @ [css]\<rparr>)"

definition entered_openModal :: "jsval \<Rightarrow> jsval \<Rightarrow> jsval \<Rightarrow> jsval \<Rightarrow> page \<Rightarrow> result" where
  "entered_openModal a b c d p = Inr (p\<lparr>openModal_calls := openModal_calls p @ [(a, b, c, d)]\<rparr>)"

section \<open>static/js/script.js\<close>

subsection \<open>Modal (lines 1 to 26)\<close>

definition openModal :: "jsval \<Rightarrow> jsval \<Rightarrow> jsval \<Rightarrow> jsval \<Rightarrow> page \<Rightarrow> result" where
  "openModal summary name score time =
     run [entered_openModal summary name score time,
          (\<lambda>p. set_innerText (getElementById ''modal-title'' p) (''Action by '' @ ToString name) p),
          (\<lambda>p. set_innerText (getElementById ''modal-details'' p) (innerText_arg summary) p),
          (\<lambda>p. set_innerText (getElementById ''modal-user'' p) (innerText_arg name) p),
          (\<lambda>p. set_innerText (getElementById ''modal-score'' p) (''+'' @ ToString score @ '' pts'') p),
          (\<lambda>p. set_innerText (getElementById ''modal-time'' p) (''Time: '' @ ToString time) p),
          (\<lambda>p. set_style_display (getElementById ''modal'' p) ''block'' p)]"

definition close_onclick :: "page \<Rightarrow> result" where
  "close_onclick p = set_style_display (getElementById ''modal'' p) ''none'' p"

definition window_onclick :: "mouse_event \<Rightarrow> page \<Rightarrow> result" where
  "window_onclick event p =
     (let modal = getElementById ''modal'' p
      in if Some (target event) = modal
         then set_style_display modal ''none'' p
         else Inr p)"

definition document_keydown :: "keyboard_event \<Rightarrow> page \<Rightarrow> result" where
  "document_keydown event p =
     (if key event = ''Escape''
      then set_style_display (getElementById ''modal'' p) ''none'' p
      else Inr p)"

subsection \<open>Theme (lines 28 to 54)\<close>

text \<open>\<open>a || b\<close> on a value that is a string or \<open>null\<close>: the empty string is falsy.\<close>

definition js_or :: "string option \<Rightarrow> string \<Rightarrow> string" where
  "js_or a b = (case a of None \<Rightarrow> b | Some s \<Rightarrow> if s = '''' then b else s)"

definition themeToggle_click :: "nat \<Rightarrow> page \<Rightarrow> result" where
  "themeToggle_click themeToggle p =
     (case document_body p of
        None \<Rightarrow> Inl (TypeError, p)
      | Some b \<Rightarrow>
          (let currentTheme = getAttribute (elements p ! b) ''data-theme'';
               newTheme = (if currentTheme = Some ''dark'' then ''light'' else ''dark'')
           in run [(\<lambda>q. call_setAttribute (document_body q) ''data-theme'' newTheme q),
                   (\<lambda>q. set_className (element_querySelector themeToggle (ByTag ''i'') q)
                           (if newTheme = ''dark'' then ''fa-solid fa-sun'' else ''fa-solid fa-moon'') q),
                   setItem ''theme'' newTheme] p))"

definition theme_init :: "page \<Rightarrow> result" where
  "theme_init p =
     (case getElementById ''themeToggle'' p of
        None \<Rightarrow> Inr p
      | Some themeToggle \<Rightarrow>
          (let savedTheme = getItem ''theme'' p;
               systemPrefersDark = prefersDark p;
               currentTheme = js_or savedTheme (if systemPrefersDark then ''dark'' else ''light'')
           in run [(\<lambda>q. call_setAttribute (document_body q) ''data-theme'' currentTheme q),
                   (\<lambda>q. set_className (element_querySelector themeToggle (ByTag ''i'') q)
                           (if currentTheme = ''dark'' then ''fa-solid fa-sun'' else ''fa-solid fa-moon'') q),
                   addEventListener (Some (OnElement themeToggle)) ''click'' (ThemeClick themeToggle)] p))"

subsection \<open>Card delegation (lines 56 to 78)\<close>

definition card_click :: "mouse_event \<Rightarrow> page \<Rightarrow> result" where
  "card_click event p =
     (case closest (ByClass ''action-card-modern'') (target event) p of
        None \<Rightarrow> Inr p
      | Some cardElement \<Rightarrow>
          (let summary = dataset (elements p ! cardElement) ''summary'';
               userName = dataset (elements p ! cardElement) ''user'';
               score = dataset (elements p ! cardElement) ''score'';
               time = dataset (elements p ! cardElement) ''time''
           in openModal summary userName score time p))"

definition card_style :: string where
  "card_style =
     [CHR 0x0A] @ ''    .action-card-modern { cursor: pointer; }'' @
     [CHR 0x0A] @ ''    .action-card-modern:hover { opacity: 0.9; }'' @
     [CHR 0x0A]"

subsection \<open>The top level of the script\<close>

definition script_js :: "page \<Rightarrow> result" where
  "script_js =
     run [(\<lambda>p. set_onclick (map_option OnElement (querySelector (ByClass ''close'') p)) CloseClick p),
          set_onclick (Some OnWindow) BackdropClick,
          addEventListener (Some OnDocument) ''keydown'' EscapeKey,
          theme_init,
          (\<lambda>p. addEventListener (map_option OnElement (document_body p)) ''click'' CardClick p),
          head_appendStyle card_style]"

section \<open>The second copy (the file of 54 lines)\<close>

definition p0_openModal :: "jsval \<Rightarrow> jsval \<Rightarrow> jsval \<Rightarrow> jsval \<Rightarrow> page \<Rightarrow> result" where
  "p0_openModal summary name score time =
     run [entered_openModal summary name score time,
          (\<lambda>p. set_innerText (getElementById ''modal-title'' p) (''Action by '' @ ToString name) p),
          (\<lambda>p. set_innerText (getElementById ''modal-details'' p) (innerText_arg summary) p),
          (\<lambda>p. set_innerText (getElementById ''modal-user'' p) (innerText_arg name) p),
          (\<lambda>p. set_innerText (getElementById ''modal-score'' p) (''+'' @ ToString score @ '' pts'') p),
          (\<lambda>p. set_innerText (getElementById ''modal-time'' p) (''Time: '' @ ToString time) p),
          (\<lambda>p. set_style_display (getElementById ''modal'' p) ''block'' p)]"

definition p0_close_onclick :: "page \<Rightarrow> result" where
  "p0_close_onclick p = set_style_display (getElementById ''modal'' p) ''none'' p"

definition p0_window_onclick :: "mouse_event \<Rightarrow> page \<Rightarrow> result" where
  "p0_window_onclick event p =
     (let modal = getElementById ''modal'' p
      in if Some (target event) = modal
         then set_style_display modal ''none'' p
         else Inr p)"

definition p0_document_keydown :: "keyboard_event \<Rightarrow> page \<Rightarrow> result" where
  "p0_document_keydown event p =
     (if key event = ''Escape''
      then set_style_display (getElementById ''modal'' p) ''none'' p
      else Inr p)"

definition p0_themeToggle_click :: "nat \<Rightarrow> page \<Rightarrow> result" where
  "p0_themeToggle_click themeToggle p =
     (case document_body p of
        None \<Rightarrow> Inl (TypeError, p)
      | Some b \<Rightarrow>
          (let currentTheme = getAttribute (elements p ! b) ''data-theme'';
               newTheme = (if currentTheme = Some ''dark'' then ''light'' else ''dark'')
           in run [(\<lambda>q. call_setAttribute (document_body q) ''data-theme'' newTheme q),
                   (\<lambda>q. set_className (element_querySelector themeToggle (ByTag ''i'') q)
                           (if newTheme = ''dark'' then ''fa-solid fa-sun'' else ''fa-solid fa-moon'') q),
                   setItem ''theme'' newTheme] p))"

definition p0_theme_init :: "page \<Rightarrow> result" where
  "p0_theme_init p =
     (case getElementById ''themeToggle'' p of
        None \<Rightarrow> Inr p
      | Some themeToggle \<Rightarrow>
          (let savedTheme = getItem ''theme'' p;
               systemPrefersDark = prefersDark p;
               currentTheme = js_or savedTheme (if systemPrefersDark then ''dark'' else ''light'')
           in run [(\<lambda>q. call_setAttribute (document_body q) ''data-theme'' currentTheme q),
                   (\<lambda>q. set_className (element_querySelector themeToggle (ByTag ''i'') q)
                           (if currentTheme = ''dark'' then ''fa-solid fa-sun'' else ''fa-solid fa-moon'') q),
                   addEventListener (Some (OnElement themeToggle)) ''click'' (ThemeClick themeToggle)] p))"

definition part_000 :: "page \<Rightarrow> result" where
  "part_000 =
     run [(\<lambda>p. set_onclick (map_option OnElement (querySelector (ByClass ''close'') p)) CloseClick p),
          set_onclick (Some OnWindow) BackdropClick,
          addEventListener (Some OnDocument) ''keydown'' EscapeKey,
          p0_theme_init]"

section \<open>Observations\<close>

subsection \<open>Reading text back\<close>

text \<open>
  The \<open>innerText\<close> getter does not return the string that was assigned. On an element
  that is being rendered it returns the text as laid out: every line break of the
  assigned string has become a \<open>br\<close> and reads as a line feed, and within a line a
  run of spaces and tabs reads as one space and is dropped at either end of the line
  (the field is taken to be alone on its lines, with the default styles of the browser:
  \<open>white-space: normal\<close>, no \<open>text-transform\<close>). On an element that is not being
  rendered it returns the data of the Text children, that is the assigned string without
  its line breaks. The only \<open>display: none\<close> known here is the one set through
  \<open>style.display\<close>. Element children contribute nothing: the modal's fields hold only
  text once they have been written.
\<close>

definition is_line_break :: "char \<Rightarrow> bool" where
  "is_line_break c = (c = CHR 0x0A \<or> c = CHR 0x0D)"

definition is_collapsible :: "char \<Rightarrow> bool" where
  "is_collapsible c = (c = CHR 0x20 \<or> c = CHR 0x09)"

text \<open>
  The lines between the \<open>br\<close> elements that the setter makes: a break at every line
  feed and every carriage return, a carriage return followed by a line feed being one
  break. The flag says that the character before was a carriage return.
\<close>

fun text_lines :: "bool \<Rightarrow> string \<Rightarrow> string \<Rightarrow> string list" where
  "text_lines after_cr cur [] = [cur]"
| "text_lines after_cr cur (c # cs) =
     (if c = CHR 0x0A then (if after_cr then text_lines False cur cs else cur # text_lines False [] cs)
      else if c = CHR 0x0D then cur # text_lines True [] cs
      else text_lines False (cur @ [c]) cs)"

fun pieces :: "string \<Rightarrow> string \<Rightarrow> string list" where
  "pieces cur [] = (if cur = [] then [] else [cur])"
| "pieces cur (c # cs) =
     (if is_collapsible c
      then (if cur = [] then pieces [] cs else cur # pieces [] cs)
      else pieces (cur @ [c]) cs)"

fun join_with :: "char \<Rightarrow> string list \<Rightarrow> string" where
  "join_with c [] = []"
| "join_with c [w] = w"
| "join_with c (w # v # ws) = w @ c # join_with c (v # ws)"

definition render_line :: "string \<Rightarrow> string" where
  "render_line l = join_with (CHR 0x20) (pieces [] l)"

definition rendered_text :: "string \<Rightarrow> string" where
  "rendered_text s = join_with (CHR 0x0A) (map render_line (text_lines False [] s))"

definition text_nodes_data :: "string \<Rightarrow> string" where
  "text_nodes_data s = filter (\<lambda>c. \<not> is_line_break c) s"

definition being_rendered :: "page \<Rightarrow> nat \<Rightarrow> bool" where
  "being_rendered p h =
     (isConnected (elements p ! h)
      \<and> list_all (\<lambda>a. style_display (elements p ! a) \<noteq> ''none'') (inclusive_ancestors p h))"

definition get_innerText :: "page \<Rightarrow> nat \<Rightarrow> string" where
  "get_innerText p h =
     (if being_rendered p h then rendered_text (content_text (elements p ! h))
      else text_nodes_data (content_text (elements p ! h)))"

text \<open>
  A text that reads back as it was written, rendered or not: no tab and no line break,
  no space at either end, no two spaces in a row. The flag says that a space may come
  next (the character before is not a space).
\<close>

fun plain_from :: "bool \<Rightarrow> string \<Rightarrow> bool" where
  "plain_from ok [] = True"
| "plain_from ok (c # cs) =
     (if c = CHR 0x20 then ok \<and> cs \<noteq> [] \<and> plain_from False cs
      else c \<noteq> CHR 0x09 \<and> c \<noteq> CHR 0x0A \<and> c \<noteq> CHR 0x0D \<and> plain_from True cs)"

definition plain :: "string \<Rightarrow> bool" where
  "plain s = plain_from False s"

subsection \<open>What a reader of the page sees\<close>

text \<open>
  What a reader of the page sees: the text of the element with a given id, its
  \<open>style.display\<close>, the \<open>data-theme\<close> attribute of the body, and whether a run
  came back without a fault.
\<close>

definition innerText_of :: "string \<Rightarrow> page \<Rightarrow> string option" where
  "innerText_of i p = map_option (get_innerText p) (getElementById i p)"

definition display_of :: "string \<Rightarrow> page \<Rightarrow> string option" where
  "display_of i p = map_option (\<lambda>h. style_display (elements p ! h)) (getElementById i p)"

definition theme_attribute :: "page \<Rightarrow> string option" where
  "theme_attribute p =
     (case document_body p of None \<Rightarrow> None | Some b \<Rightarrow> getAttribute (elements p ! b) ''data-theme'')"

definition returns :: "result \<Rightarrow> bool" where
  "returns r = (case r of Inl f \<Rightarrow> False | Inr p \<Rightarrow> True)"

text \<open>
  \<open>n\<close> clicks on the toggle control, one after the other. A click whose handler
  faults leaves the page as the handler left it.
\<close>

primrec toggles :: "nat \<Rightarrow> nat \<Rightarrow> page \<Rightarrow> page" where
  "toggles 0 themeToggle p = p"
| "toggles (Suc n) themeToggle p = toggles n themeToggle (page_of (themeToggle_click themeToggle p))"

section \<open>Example pages\<close>

definition el :: "nat option \<Rightarrow> string \<Rightarrow> (string \<times> string) list \<Rightarrow> element" where
  "el par tag attrs =
     \<lparr>parentNode = par, isConnected = True, localName = tag, attributes = attrs,
      content_text = '''', style_display = ''''\<rparr>"

text \<open>
  A page with the theme toggle and its icon, one action card with a child, and the modal
  with its close control and its five text fields. The body is element 1.
\<close>

definition example_page :: page where
  "example_page =
     \<lparr>elements =
        [el None ''html'' [],
         el (Some 0) ''body'' [],
         el (Some 1) ''button'' [(''id'', ''themeToggle'')],
         el (Some 2) ''i'' [(''class'', ''fa-solid fa-moon'')],
         el (Some 1) ''div'' [(''class'', ''card action-card-modern''), (''data-summary'', ''Did X''),
             (''data-user'', ''Alice''), (''data-score'', ''5''), (''data-time'', ''2024-01-01'')],
         el (Some 4) ''span'' [],
         el (Some 1) ''div'' [(''id'', ''modal'')],
         el (Some 6) ''span'' [(''class'', ''close'')],
         el (Some 6) ''h2'' [(''id'', ''modal-title'')],
         el (Some 6) ''p'' [(''id'', ''modal-details'')],
         el (Some 6) ''span'' [(''id'', ''modal-user'')],
         el (Some 6) ''span'' [(''id'', ''modal-score'')],
         el (Some 6) ''span'' [(''id'', ''modal-time'')]],
      body = 1, localStorage = [], prefersDark = True, onclick = [], listeners = [],
      head_styles = [], openModal_calls = []\<rparr>"

definition opened_page :: page where
  "opened_page =
     page_of (openModal (Str ''Did X'') (Str ''Alice'') (Str ''5'') (Str ''2024-01-01'') example_page)"

definition loaded_page :: page where
  "loaded_page = page_of (script_js example_page)"

text \<open>The child of the card is itself a card, with other data, and has a child (element 13).\<close>

definition nested_cards_page :: page where
  "nested_cards_page =
     example_page\<lparr>elements :=
       (elements example_page)
         [5 := el (Some 4) ''div'' [(''class'', ''action-card-modern''), (''data-summary'', ''Did Y''),
                (''data-user'', ''Bob''), (''data-score'', ''7''), (''data-time'', ''2024-02-02'')]]
       @ [el (Some 5) ''span'' []]\<rparr>"

definition saved_light_page :: page where
  "saved_light_page = example_page\<lparr>localStorage := [(''theme'', ''light'')]\<rparr>"

definition saved_blue_page :: page where
  "saved_blue_page = example_page\<lparr>localStorage := [(''theme'', ''blue'')]\<rparr>"

definition light_system_page :: page where
  "light_system_page = example_page\<lparr>prefersDark := False\<rparr>"

text \<open>The user field (element 10) lies inside the title (element 8).\<close>

definition nested_fields_page :: page where
  "nested_fields_page =
     example_page\<lparr>elements :=
       (elements example_page)[10 := el (Some 8) ''span'' [(''id'', ''modal-user'')]]\<rparr>"

text \<open>The toggle control holds a \<open>span\<close> where the icon was.\<close>

definition iconless_page :: page where
  "iconless_page = example_page\<lparr>elements := (elements example_page)[3 := el (Some 2) ''span'' []]\<rparr>"

text \<open>The button has lost its id, so the page has no toggle control.\<close>

definition toggleless_page :: page where
  "toggleless_page = example_page\<lparr>elements := (elements example_page)[2 := el (Some 1) ''button'' []]\<rparr>"

section \<open>Facts about the document operations\<close>

subsection \<open>Running statements\<close>

lemma page_of_simps [simp]: "page_of (Inr p) = p" "page_of (Inl (e, p)) = p"
  by (simp_all add: page_of_def)

lemma assign_Some [simp]: "assign (Some h) f p = Inr (update_element h f p)"
  by (simp add: assign_def)

lemma assign_None [simp]: "assign None f p = Inl (TypeError, p)"
  by (simp add: assign_def)

lemma run_frame:
  assumes "\<And>s p. s \<in> set ss \<Longrightarrow> g (page_of (s p)) = g p"
  shows "g (page_of (run ss p)) = g p"
  using assms
proof (induction ss arbitrary: p)
  case Nil
  then show ?case by simp
next
  case (Cons s ss)
  have step: "g (page_of (s p)) = g p" using Cons.prems by simp
  show ?case
  proof (cases "s p")
    case (Inl f)
    with step show ?thesis by simp
  next
    case (Inr q)
    have "g (page_of (run ss q)) = g q" using Cons by simp
    with Inr step show ?thesis by simp
  qed
qed

lemma run_frame_tail:
  assumes "s p = Inr q" and "\<And>s' p'. s' \<in> set ss \<Longrightarrow> g (page_of (s' p')) = g p'"
  shows "g (page_of (run (s # ss) p)) = g q"
  using assms by (simp add: run_frame)

lemma run_append:
  "run (xs @ ys) p = (case run xs p of Inl f \<Rightarrow> Inl f | Inr q \<Rightarrow> run ys q)"
  by (induction xs arbitrary: p) (auto split: sum.splits)

lemma assign_frame:
  assumes "\<And>h. g (update_element h f p) = g p"
  shows "g (page_of (assign x f p)) = g p"
  using assms by (cases x) simp_all

subsection \<open>Updates of one element\<close>

lemma update_element_fields [simp]:
  "elements (update_element h f p) = (elements p)[h := f (elements p ! h)]"
  "body (update_element h f p) = body p"
  "localStorage (update_element h f p) = localStorage p"
  "prefersDark (update_element h f p) = prefersDark p"
  "onclick (update_element h f p) = onclick p"
  "listeners (update_element h f p) = listeners p"
  "head_styles (update_element h f p) = head_styles p"
  "openModal_calls (update_element h f p) = openModal_calls p"
  by (simp_all add: update_element_def)

lemma nth_update_same:
  assumes "j < length xs"
  shows "xs[h := f (xs ! h)] ! j = (if j = h then f (xs ! j) else xs ! j)"
  using assms by (cases "j = h") simp_all

lemma getAttribute_setAttribute:
  "getAttribute (setAttribute k v e) k' = (if k' = k then Some v else getAttribute e k')"
  by (simp add: getAttribute_def setAttribute_def update_conv')

lemma getAttribute_field_updates [simp]:
  "getAttribute (e\<lparr>content_text := v\<rparr>) k = getAttribute e k"
  "getAttribute (e\<lparr>style_display := v\<rparr>) k = getAttribute e k"
  by (simp_all add: getAttribute_def)

lemma setAttribute_fields [simp]:
  "content_text (setAttribute k v e) = content_text e"
  "isConnected (setAttribute k v e) = isConnected e"
  "style_display (setAttribute k v e) = style_display e"
  "parentNode (setAttribute k v e) = parentNode e"
  "localName (setAttribute k v e) = localName e"
  by (simp_all add: setAttribute_def)

subsection \<open>Lookups are stable under the updates the script makes\<close>

lemma getElementById_SomeD:
  assumes "getElementById i p = Some h"
  shows "h < length (elements p)" and "getAttribute (elements p ! h) ''id'' = Some i"
    and "isConnected (elements p ! h)"
  using assms unfolding getElementById_def by (auto simp: find_Some_iff)

lemma getElementById_inj:
  "getElementById i p = Some h \<Longrightarrow> getElementById j p = Some h \<Longrightarrow> i = j"
  by (auto dest!: getElementById_SomeD(2))

lemma getElementById_cong:
  assumes "length (elements q) = length (elements p)"
    and "\<And>h. h < length (elements p) \<Longrightarrow>
           getAttribute (elements q ! h) ''id'' = getAttribute (elements p ! h) ''id''"
    and "\<And>h. h < length (elements p) \<Longrightarrow>
           isConnected (elements q ! h) = isConnected (elements p ! h)"
  shows "getElementById i q = getElementById i p"
  unfolding getElementById_def using assms by (auto intro!: find_cong)

lemma getElementById_update_element:
  assumes "\<And>e. getAttribute (f e) ''id'' = getAttribute e ''id''"
    and "\<And>e. isConnected (f e) = isConnected e"
  shows "getElementById i (update_element h f p) = getElementById i p"
  by (rule getElementById_cong) (simp_all add: nth_update_same assms)

lemma getElementById_keeps [simp]:
  "getElementById i (update_element h (\<lambda>e. e\<lparr>style_display := v\<rparr>) p) = getElementById i p"
  "k \<noteq> ''id'' \<Longrightarrow> getElementById i (update_element h (setAttribute k v) p) = getElementById i p"
  "getElementById i (p\<lparr>openModal_calls := c\<rparr>) = getElementById i p"
  "getElementById i (p\<lparr>localStorage := s\<rparr>) = getElementById i p"
  "getElementById i (p\<lparr>listeners := l\<rparr>) = getElementById i p"
  by (simp_all add: getElementById_update_element getAttribute_setAttribute)
     (simp_all add: getElementById_def)

lemma ancestors_upto_in_range: "a \<in> set (ancestors_upto n es d) \<Longrightarrow> a < length es"
  by (induction n arbitrary: d) (auto split: if_splits option.splits)

lemma ancestors_upto_cong:
  assumes "length es' = length es"
    and "\<And>h. h < length es \<Longrightarrow> parentNode (es' ! h) = parentNode (es ! h)"
  shows "ancestors_upto n es' x = ancestors_upto n es x"
  using assms by (induction n arbitrary: x) (auto split: option.splits)

lemma parents_precedeD:
  "parents_precede es \<Longrightarrow> h < length es \<Longrightarrow> parentNode (es ! h) = Some q \<Longrightarrow> q < h"
  by (auto simp: parents_precede_def list_all_iff split: option.splits)

lemma ancestors_upto_enough:
  assumes "parents_precede es" and "h < n"
  shows "ancestors_upto (n + k) es h = ancestors_upto n es h"
  using assms(2)
proof (induction n arbitrary: h)
  case 0
  then show ?case by simp
next
  case (Suc n)
  show ?case
  proof (cases "h < length es")
    case False
    then show ?thesis by simp
  next
    case True
    show ?thesis
    proof (cases "parentNode (es ! h)")
      case None
      with True show ?thesis by simp
    next
      case (Some q)
      from parents_precedeD [OF assms(1) True Some] Suc.prems have "q < n" by simp
      from Suc.IH [OF this] True Some show ?thesis by simp
    qed
  qed
qed

lemma ancestors_upto_outside:
  "\<not> h < length es \<Longrightarrow> ancestors_upto n es h = []"
  by (cases n) simp_all

lemma inclusive_ancestors_complete:
  assumes "parents_precede (elements p)"
  shows "ancestors_upto (length (elements p) + k) (elements p) h = inclusive_ancestors p h"
proof (cases "h < length (elements p)")
  case True
  with assms show ?thesis
    unfolding inclusive_ancestors_def by (rule ancestors_upto_enough)
next
  case False
  then show ?thesis
    by (simp add: inclusive_ancestors_def ancestors_upto_outside)
qed

lemma example_page_parents_precede: "parents_precede (elements example_page)"
  by code_simp

lemma inclusive_ancestors_update_element:
  assumes "\<And>e. parentNode (f e) = parentNode e"
  shows "inclusive_ancestors (update_element h f p) x = inclusive_ancestors p x"
  unfolding inclusive_ancestors_def
  by (simp, rule ancestors_upto_cong) (simp_all add: nth_update_same assms)

lemma element_querySelector_update_element:
  assumes "\<And>e. parentNode (f e) = parentNode e" and "\<And>e. matches sel (f e) = matches sel e"
  shows "element_querySelector r sel (update_element h f p) = element_querySelector r sel p"
  unfolding element_querySelector_def
  by (rule find_cong) (simp_all add: inclusive_ancestors_update_element assms nth_update_same)

lemma element_querySelector_keeps [simp]:
  "element_querySelector r (ByTag t) (update_element h (setAttribute k v) p) =
     element_querySelector r (ByTag t) p"
  by (rule element_querySelector_update_element) simp_all

lemma document_body_update_element [simp]:
  "document_body (update_element h f p) = document_body p"
  by (simp add: document_body_def)

lemma find_first_match:
  "\<forall>a\<in>set pre. \<not> P a \<Longrightarrow> P c \<Longrightarrow> List.find P (pre @ c # post) = Some c"
  by (induction pre) auto

subsection \<open>Assigning to innerText\<close>

lemma set_innerText_Some [simp]: "set_innerText (Some h) v p = Inr (set_innerText_at h v p)"
  by (simp add: set_innerText_def)

lemma set_innerText_None [simp]: "set_innerText None v p = Inl (TypeError, p)"
  by (simp add: set_innerText_def)

lemma set_innerText_frame:
  assumes "\<And>h. g (set_innerText_at h v p) = g p"
  shows "g (page_of (set_innerText x v p)) = g p"
  using assms by (cases x) simp_all

lemma set_innerText_at_fields [simp]:
  "length (elements (set_innerText_at h v p)) = length (elements p)"
  "body (set_innerText_at h v p) = body p"
  "localStorage (set_innerText_at h v p) = localStorage p"
  "prefersDark (set_innerText_at h v p) = prefersDark p"
  "onclick (set_innerText_at h v p) = onclick p"
  "listeners (set_innerText_at h v p) = listeners p"
  "head_styles (set_innerText_at h v p) = head_styles p"
  "openModal_calls (set_innerText_at h v p) = openModal_calls p"
  by (simp_all add: set_innerText_at_def)

lemma set_innerText_at_nth:
  assumes "d < length (elements p)"
  shows "elements (set_innerText_at h v p) ! d =
           (if d = h then (elements p ! d)\<lparr>content_text := v\<rparr>
            else if inside p d h
            then (elements p ! d)
                   \<lparr>parentNode := (if parentNode (elements p ! d) = Some h then None
                                   else parentNode (elements p ! d)),
                    isConnected := False\<rparr>
            else elements p ! d)"
  using assms by (simp add: set_innerText_at_def)

lemma set_innerText_at_keeps [simp]:
  assumes "d < length (elements p)"
  shows "attributes (elements (set_innerText_at h v p) ! d) = attributes (elements p ! d)"
    and "style_display (elements (set_innerText_at h v p) ! d) = style_display (elements p ! d)"
    and "localName (elements (set_innerText_at h v p) ! d) = localName (elements p ! d)"
    and "content_text (elements (set_innerText_at h v p) ! d) =
           (if d = h then v else content_text (elements p ! d))"
    and "getAttribute (elements (set_innerText_at h v p) ! d) k = getAttribute (elements p ! d) k"
  using assms by (simp_all add: set_innerText_at_nth getAttribute_def)

lemma set_innerText_at_outside:
  assumes "d < length (elements p)" and "\<not> inside p d h"
  shows "isConnected (elements (set_innerText_at h v p) ! d) = isConnected (elements p ! d)"
    and "parentNode (elements (set_innerText_at h v p) ! d) = parentNode (elements p ! d)"
  using assms by (simp_all add: set_innerText_at_nth)

lemma set_innerText_at_disconnects:
  assumes "d < length (elements p)" and "isConnected (elements (set_innerText_at h v p) ! d)"
  shows "isConnected (elements p ! d)"
  using assms by (simp add: set_innerText_at_nth split: if_splits)

lemma set_innerText_at_parent:
  assumes "d < length (elements p)"
  shows "parentNode (elements (set_innerText_at h v p) ! d) = parentNode (elements p ! d)
       \<or> parentNode (elements (set_innerText_at h v p) ! d) = None"
  using assms by (simp add: set_innerText_at_nth)

text \<open>Cutting parents off can only shorten a chain.\<close>

lemma ancestors_upto_cut:
  assumes "length es' = length es"
    and "\<And>x. x < length es \<Longrightarrow> parentNode (es' ! x) = parentNode (es ! x) \<or> parentNode (es' ! x) = None"
  shows "set (ancestors_upto n es' d) \<subseteq> set (ancestors_upto n es d)"
  using assms(2)
proof (induction n arbitrary: d)
  case 0
  then show ?case by simp
next
  case (Suc n)
  show ?case
  proof (cases "d < length es")
    case False
    with assms(1) show ?thesis by simp
  next
    case True
    from Suc.prems [OF True] show ?thesis
    proof
      assume same: "parentNode (es' ! d) = parentNode (es ! d)"
      show ?thesis
      proof (cases "parentNode (es ! d)")
        case None
        with same True assms(1) show ?thesis by simp
      next
        case (Some q)
        have "set (ancestors_upto n es' q) \<subseteq> set (ancestors_upto n es q)"
          using Suc.IH Suc.prems by blast
        with same Some True assms(1) show ?thesis by auto
      qed
    next
      assume "parentNode (es' ! d) = None"
      with True assms(1) show ?thesis by simp
    qed
  qed
qed

lemma inside_after_set_innerText_at:
  assumes "inside (set_innerText_at h v p) d a"
  shows "inside p d a"
proof -
  have "set (inclusive_ancestors (set_innerText_at h v p) d) \<subseteq> set (inclusive_ancestors p d)"
    unfolding inclusive_ancestors_def set_innerText_at_fields
    by (rule ancestors_upto_cut) (simp_all add: set_innerText_at_parent)
  with assms show ?thesis by (auto simp: inside_def)
qed

lemma inside_after_update_element:
  assumes "\<And>e. parentNode (f e) = parentNode e"
  shows "inside (update_element h f p) d a = inside p d a"
  by (simp add: inside_def inclusive_ancestors_update_element assms)

lemma inside_same_elements:
  "elements q = elements p \<Longrightarrow> inside q d a = inside p d a"
  by (simp add: inside_def inclusive_ancestors_def)

lemma getElementById_after_set_innerText_at:
  assumes "getElementById j p = Some d" and "\<not> inside p d h"
  shows "getElementById j (set_innerText_at h v p) = Some d"
proof -
  from assms(1) have d: "d < length (elements p)" "isConnected (elements p ! d)"
    "getAttribute (elements p ! d) ''id'' = Some j"
    and before: "\<forall>x<d. \<not> (isConnected (elements p ! x) \<and> getAttribute (elements p ! x) ''id'' = Some j)"
    unfolding getElementById_def by (auto simp: find_Some_iff)
  have here: "isConnected (elements (set_innerText_at h v p) ! d)"
    using d assms(2) by (simp add: set_innerText_at_outside)
  have earlier: "\<not> (isConnected (elements (set_innerText_at h v p) ! x)
                   \<and> getAttribute (elements (set_innerText_at h v p) ! x) ''id'' = Some j)"
    if "x < d" for x
  proof -
    from that d(1) have x: "x < length (elements p)" by simp
    from before that have "\<not> (isConnected (elements p ! x) \<and> getAttribute (elements p ! x) ''id'' = Some j)"
      by simp
    with x show ?thesis
      using set_innerText_at_disconnects [OF x] by auto
  qed
  show ?thesis
    unfolding getElementById_def
    using d here earlier by (auto simp: find_Some_iff intro!: exI [of _ d])
qed

subsection \<open>Plain text reads back as written\<close>

lemma plain_from_lines: "plain_from ok s \<Longrightarrow> text_lines False cur s = [cur @ s]"
  by (induction s arbitrary: ok cur) (auto split: if_splits)

lemma plain_from_data: "plain_from ok s \<Longrightarrow> text_nodes_data s = s"
  by (induction s arbitrary: ok) (auto simp: text_nodes_data_def is_line_break_def split: if_splits)

lemma plain_from_pieces:
  assumes "plain_from ok s" and "ok = (cur \<noteq> [])"
  shows "join_with (CHR 0x20) (pieces cur s) = cur @ s"
  using assms
proof (induction s arbitrary: ok cur)
  case Nil
  then show ?case by simp
next
  case (Cons c cs)
  show ?case
  proof (cases "c = CHR 0x20")
    case True
    with Cons.prems have cur: "cur \<noteq> []" and cs: "cs \<noteq> []" and rest: "plain_from False cs"
      by auto
    from Cons.IH [OF rest, of "[]"] have j: "join_with (CHR 0x20) (pieces [] cs) = cs" by simp
    with cs obtain w ws where ne: "pieces [] cs = w # ws"
      by (cases "pieces [] cs") auto
    from True cur have "pieces cur (c # cs) = cur # pieces [] cs"
      by (simp add: is_collapsible_def)
    with ne j True show ?thesis by simp
  next
    case False
    with Cons.prems have nt: "c \<noteq> CHR 0x09" and rest: "plain_from True cs" by auto
    from Cons.IH [OF rest, of "cur @ [c]"] have "join_with (CHR 0x20) (pieces (cur @ [c]) cs) = (cur @ [c]) @ cs"
      by simp
    with False nt show ?thesis by (simp add: is_collapsible_def)
  qed
qed

lemma plain_rendered: "plain s \<Longrightarrow> rendered_text s = s"
  using plain_from_lines [of False s "[]"] plain_from_pieces [of False s "[]"]
  by (simp add: plain_def rendered_text_def render_line_def)

lemma get_innerText_plain:
  "plain (content_text (elements p ! h)) \<Longrightarrow> get_innerText p h = content_text (elements p ! h)"
  by (simp add: get_innerText_def plain_rendered plain_from_data [of False] plain_def)

lemma plain_from_weaken: "plain_from False s \<Longrightarrow> plain_from True s"
  by (cases s) (auto split: if_splits)

lemma plain_from_append:
  "plain_from ok s \<Longrightarrow> plain_from (if s = [] then ok else True) t \<Longrightarrow> plain_from ok (s @ t)"
proof (induction s arbitrary: ok)
  case Nil
  then show ?case by simp
next
  case (Cons c cs)
  show ?case
  proof (cases "c = CHR 0x20")
    case True
    with Cons.prems have "ok" "cs \<noteq> []" "plain_from False cs" "plain_from True t" by auto
    with Cons.IH [of False] True show ?thesis by simp
  next
    case False
    with Cons.prems have "plain_from True cs" "plain_from True t" by auto
    with Cons.IH [of True] False Cons.prems show ?thesis by simp
  qed
qed

lemma plain_modal_texts:
  assumes "plain s"
  shows "s \<noteq> [] \<Longrightarrow> plain (''Action by '' @ s)"
    and "plain (''+'' @ s @ '' pts'')"
    and "s \<noteq> [] \<Longrightarrow> plain (''Time: '' @ s)"
proof -
  from assms have f: "plain_from False s" by (simp add: plain_def)
  show "s \<noteq> [] \<Longrightarrow> plain (''Action by '' @ s)" using f by (simp add: plain_def)
  show "s \<noteq> [] \<Longrightarrow> plain (''Time: '' @ s)" using f by (simp add: plain_def)
  have "plain_from True (s @ '' pts'')"
    by (rule plain_from_append) (simp_all add: plain_from_weaken f)
  then show "plain (''+'' @ s @ '' pts'')" by (simp add: plain_def)
qed

subsection \<open>What the observations see of an update\<close>

lemma being_rendered_setAttribute:
  assumes "d < length (elements p)"
  shows "being_rendered (update_element h (setAttribute k v) p) d = being_rendered p d"
proof -
  have "style_display ((elements p)[h := setAttribute k v (elements p ! h)] ! a) =
        style_display (elements p ! a)" if "a \<in> set (inclusive_ancestors p d)" for a
  proof -
    from that have "a < length (elements p)"
      unfolding inclusive_ancestors_def by (rule ancestors_upto_in_range)
    then show ?thesis by (simp add: nth_update_same)
  qed
  then show ?thesis
    using assms
    by (simp add: being_rendered_def inclusive_ancestors_update_element nth_update_same
          list_all_iff)
qed

lemma innerText_of_keeps [simp]:
  "k \<noteq> ''id'' \<Longrightarrow> innerText_of j (update_element h (setAttribute k v) p) = innerText_of j p"
  by (cases "getElementById j p")
     (auto simp: innerText_of_def get_innerText_def being_rendered_setAttribute nth_update_same
           dest: getElementById_SomeD(1))

lemma display_of_keeps [simp]:
  "display_of j (update_element h (\<lambda>e. e\<lparr>style_display := v\<rparr>) p) =
     (if getElementById j p = Some h then Some v else display_of j p)"
  "k \<noteq> ''id'' \<Longrightarrow> display_of j (update_element h (setAttribute k v) p) = display_of j p"
  by (cases "getElementById j p";
      auto simp: display_of_def nth_update_same dest: getElementById_SomeD(1))+

lemma get_innerText_same_elements:
  "elements q = elements p \<Longrightarrow> get_innerText q = get_innerText p"
  by (intro ext) (simp add: get_innerText_def being_rendered_def inclusive_ancestors_def)

lemma get_innerText_ignores [simp]:
  "get_innerText (p\<lparr>localStorage := s\<rparr>) = get_innerText p"
  "get_innerText (p\<lparr>openModal_calls := c\<rparr>) = get_innerText p"
  by (rule get_innerText_same_elements, simp)+

lemma reads_same_elements:
  "elements q = elements p \<Longrightarrow> innerText_of j q = innerText_of j p"
  "elements q = elements p \<Longrightarrow> display_of j q = display_of j p"
  by (simp_all add: innerText_of_def display_of_def getElementById_def
        get_innerText_same_elements [of q p])

lemma theme_attribute_keeps [simp]:
  "theme_attribute (set_innerText_at h v p) = theme_attribute p"
  "theme_attribute (update_element h (\<lambda>e. e\<lparr>style_display := v\<rparr>) p) = theme_attribute p"
  "k \<noteq> ''data-theme'' \<Longrightarrow>
     theme_attribute (update_element h (setAttribute k v) p) = theme_attribute p"
  by (auto simp: theme_attribute_def document_body_def nth_update_same getAttribute_setAttribute)

lemma theme_attribute_set:
  "document_body p = Some b \<Longrightarrow>
     theme_attribute (update_element b (setAttribute ''data-theme'' v) p) = Some v"
  by (auto simp: theme_attribute_def document_body_def getAttribute_setAttribute
           split: if_splits)

lemma theme_attribute_body:
  "document_body p = Some b \<Longrightarrow> theme_attribute p = getAttribute (elements p ! b) ''data-theme''"
  by (simp add: theme_attribute_def)

lemma getItem_update_element [simp]:
  "getItem k (update_element h f p) = getItem k p"
  "getItem k (set_innerText_at h v p) = getItem k p"
  by (simp_all add: getItem_def)

lemma getItem_setItem [simp]:
  "getItem k (p\<lparr>localStorage := AList.update k' v s\<rparr>) =
     (if k = k' then Some v else map_of s k)"
  by (simp add: getItem_def update_conv')

lemma reads_ignore_localStorage [simp]:
  "theme_attribute (p\<lparr>localStorage := s\<rparr>) = theme_attribute p"
  "document_body (p\<lparr>localStorage := s\<rparr>) = document_body p"
  "element_querySelector r sel (p\<lparr>localStorage := s\<rparr>) = element_querySelector r sel p"
  "innerText_of j (p\<lparr>localStorage := s\<rparr>) = innerText_of j p"
  "display_of j (p\<lparr>localStorage := s\<rparr>) = display_of j p"
  by (simp_all add: theme_attribute_def document_body_def element_querySelector_def
        inclusive_ancestors_def innerText_of_def display_of_def)

lemma reads_ignore_listeners [simp]:
  "theme_attribute (p\<lparr>listeners := l\<rparr>) = theme_attribute p"
  "document_body (p\<lparr>listeners := l\<rparr>) = document_body p"
  "getItem k (p\<lparr>listeners := l\<rparr>) = getItem k p"
  by (simp_all add: theme_attribute_def document_body_def getItem_def)

lemma reads_ignore_calls [simp]:
  "theme_attribute (p\<lparr>openModal_calls := c\<rparr>) = theme_attribute p"
  "getItem k (p\<lparr>openModal_calls := c\<rparr>) = getItem k p"
  by (simp_all add: theme_attribute_def document_body_def getItem_def)

section \<open>The modal\<close>

lemma openModal_calls_log:
  "openModal_calls (page_of (openModal a b c d p)) = openModal_calls p @ [(a, b, c, d)]"
proof -
  have "openModal_calls (page_of (openModal a b c d p)) =
        openModal_calls (p\<lparr>openModal_calls := openModal_calls p @ [(a, b, c, d)]\<rparr>)"
    unfolding openModal_def
    by (rule run_frame_tail)
       (auto simp: entered_openModal_def set_style_display_def
             intro!: assign_frame set_innerText_frame)
  then show ?thesis by simp
qed

lemma openModal_frame:
  assumes "\<And>h v q. g (set_innerText_at h v q) = g q"
    and "\<And>h v q. g (update_element h (\<lambda>e. e\<lparr>style_display := v\<rparr>) q) = g q"
    and "\<And>c q. g (q\<lparr>openModal_calls := c\<rparr>) = g q"
  shows "g (page_of (openModal a b c d p)) = g p"
  unfolding openModal_def
  apply (rule run_frame)
  apply (auto simp: entered_openModal_def set_style_display_def assms
              intro!: assign_frame set_innerText_frame)
  done

lemma openModal_returns_modal:
  assumes "openModal a b c d p = Inr p'"
  shows "getElementById ''modal'' p' \<noteq> None"
  using assms unfolding openModal_def
  by (auto simp: entered_openModal_def set_innerText_def set_style_display_def assign_def
           split: option.splits)

lemma hide_on_trigger:
  assumes "getElementById ''modal'' p = Some m"
  shows "\<exists>q. close_onclick p = Inr q \<and> display_of ''modal'' q = Some ''none''"
    and "target event = m \<Longrightarrow>
           \<exists>q. window_onclick event p = Inr q \<and> display_of ''modal'' q = Some ''none''"
    and "key kev = ''Escape'' \<Longrightarrow>
           \<exists>q. document_keydown kev p = Inr q \<and> display_of ''modal'' q = Some ''none''"
  using assms
  by (simp_all add: close_onclick_def window_onclick_def document_keydown_def
        set_style_display_def)

section \<open>The theme\<close>

lemma themeToggle_click_result:
  assumes "document_body p = Some b" and "element_querySelector tt (ByTag ''i'') p = Some i"
  shows "\<exists>q. themeToggle_click tt p = Inr q
           \<and> theme_attribute q =
               Some (if theme_attribute p = Some ''dark'' then ''light'' else ''dark'')
           \<and> getItem ''theme'' q = theme_attribute q
           \<and> document_body q = Some b
           \<and> element_querySelector tt (ByTag ''i'') q = Some i"
  using assms
  by (simp add: themeToggle_click_def Let_def call_setAttribute_def set_className_def
        setItem_def theme_attribute_set theme_attribute_body [symmetric])

lemma themeToggle_click_theme:
  assumes "document_body p = Some b"
  shows "theme_attribute (page_of (themeToggle_click tt p)) =
           Some (if theme_attribute p = Some ''dark'' then ''light'' else ''dark'')"
proof -
  let ?new = "if theme_attribute p = Some ''dark'' then ''light'' else ''dark''"
  let ?p1 = "update_element b (setAttribute ''data-theme'' ?new) p"
  have "theme_attribute (page_of (themeToggle_click tt p)) = theme_attribute ?p1"
    using assms
    unfolding themeToggle_click_def
    apply (simp only: option.case Let_def theme_attribute_body [OF assms, symmetric])
    apply (rule run_frame_tail)
     apply (simp add: call_setAttribute_def)
    apply (auto simp: set_className_def setItem_def intro!: assign_frame)
    done
  then show ?thesis using assms by (simp add: theme_attribute_set)
qed

lemma themeToggle_click_frame:
  assumes "\<And>h k v q. k = ''data-theme'' \<or> k = ''class'' \<Longrightarrow>
             g (update_element h (setAttribute k v) q) = g q"
    and "\<And>s q. g (q\<lparr>localStorage := s\<rparr>) = g q"
  shows "g (page_of (themeToggle_click tt p)) = g p"
  unfolding themeToggle_click_def Let_def
  apply (split option.split)
  apply (intro conjI allI impI)
   apply simp
  apply (rule run_frame)
  apply (auto simp: call_setAttribute_def set_className_def setItem_def assms
              intro!: assign_frame)
  done

lemma themeToggle_click_body:
  "document_body (page_of (themeToggle_click tt p)) = document_body p"
  by (rule themeToggle_click_frame) simp_all

lemma theme_init_theme:
  assumes "getElementById ''themeToggle'' p = Some tt" and "document_body p = Some b"
  shows "theme_attribute (page_of (theme_init p)) =
           Some (js_or (getItem ''theme'' p) (if prefersDark p then ''dark'' else ''light''))"
proof -
  let ?cur = "js_or (getItem ''theme'' p) (if prefersDark p then ''dark'' else ''light'')"
  let ?p1 = "update_element b (setAttribute ''data-theme'' ?cur) p"
  have "theme_attribute (page_of (theme_init p)) = theme_attribute ?p1"
    unfolding theme_init_def
    apply (simp only: assms option.case Let_def)
    apply (rule run_frame_tail)
     apply (simp add: call_setAttribute_def assms)
    apply (auto simp: set_className_def addEventListener_def intro!: assign_frame)
    done
  then show ?thesis using assms by (simp add: theme_attribute_set)
qed

lemma theme_init_frame:
  assumes "\<And>h k v q. k = ''data-theme'' \<or> k = ''class'' \<Longrightarrow>
             g (update_element h (setAttribute k v) q) = g q"
    and "\<And>l q. g (q\<lparr>listeners := l\<rparr>) = g q"
  shows "g (page_of (theme_init p)) = g p"
  unfolding theme_init_def Let_def
  apply (split option.split)
  apply (intro conjI allI impI)
   apply simp
  apply (rule run_frame)
  apply (auto simp: call_setAttribute_def set_className_def addEventListener_def assms
              intro!: assign_frame)
  done

lemma theme_init_body:
  "document_body (page_of (theme_init p)) = document_body p"
  by (rule theme_init_frame) simp_all

lemma toggles_body: "document_body (toggles n tt p) = document_body p"
  by (induction n arbitrary: p) (simp_all add: themeToggle_click_body)

lemma toggles_two_states:
  assumes "document_body p = Some b"
    and "theme_attribute p = Some ''light'' \<or> theme_attribute p = Some ''dark'' \<or> 0 < n"
  shows "theme_attribute (toggles n tt p) = Some ''light'' \<or>
         theme_attribute (toggles n tt p) = Some ''dark''"
  using assms
proof (induction n arbitrary: p)
  case 0
  then show ?case by simp
next
  case (Suc n)
  let ?q = "page_of (themeToggle_click tt p)"
  have "document_body ?q = Some b" using Suc.prems by (simp add: themeToggle_click_body)
  moreover have "theme_attribute ?q = Some ''light'' \<or> theme_attribute ?q = Some ''dark''"
    using Suc.prems(1) by (simp add: themeToggle_click_theme)
  ultimately show ?case using Suc.IH [of ?q] by auto
qed

section \<open>Card delegation\<close>

lemma card_click_nearest:
  assumes "inclusive_ancestors p (target event) = pre @ cardElement # post"
    and "\<forall>a\<in>set pre. \<not> matches (ByClass ''action-card-modern'') (elements p ! a)"
    and "matches (ByClass ''action-card-modern'') (elements p ! cardElement)"
  shows "card_click event p =
           openModal (dataset (elements p ! cardElement) ''summary'') (dataset (elements p ! cardElement) ''user'')
             (dataset (elements p ! cardElement) ''score'') (dataset (elements p ! cardElement) ''time'') p"
proof -
  have "closest (ByClass ''action-card-modern'') (target event) p = Some cardElement"
    unfolding closest_def assms(1) using assms(2,3) by (rule find_first_match)
  then show ?thesis by (simp add: card_click_def Let_def)
qed

section \<open>Claims about the modal\<close>

lemma modal_step:
  assumes "\<forall>(i, d)\<in>set hs. getElementById i p = Some d"
    and "\<forall>a\<in>set F. \<forall>(i, d)\<in>set hs. \<not> inside p d a"
    and "h \<in> set F"
  shows "\<forall>(i, d)\<in>set hs. getElementById i (set_innerText_at h v p) = Some d"
    and "\<forall>a\<in>set F. \<forall>(i, d)\<in>set hs. \<not> inside (set_innerText_at h v p) d a"
proof -
  show "\<forall>(i, d)\<in>set hs. getElementById i (set_innerText_at h v p) = Some d"
    using assms by (auto intro!: getElementById_after_set_innerText_at)
  show "\<forall>a\<in>set F. \<forall>(i, d)\<in>set hs. \<not> inside (set_innerText_at h v p) d a"
    using assms(2) by (auto dest!: inside_after_set_innerText_at)
qed

lemma read_plain:
  "getElementById j q = Some d \<Longrightarrow> content_text (elements q ! d) = t \<Longrightarrow> plain t \<Longrightarrow>
     innerText_of j q = Some t"
  by (simp add: innerText_of_def get_innerText_plain)

text \<open>
  C1. Let the page hold the six elements of the modal, none of them inside one of the
  five text fields, and let summary, user, score and time be strings without tab or line
  break, without a space at either end and without two spaces in a row, user and time not
  empty. Then \<open>openModal\<close> returns, and on the page it returns the title reads
  \<open>Action by\<close>, a space and the user, the details read the summary, the user field
  reads the user, the score reads \<open>+\<close>, the score and \<open>pts\<close>, the time reads
  \<open>Time:\<close>, a space and the time, and \<open>style.display\<close> of the modal is
  \<open>block\<close>.
\<close>

theorem openModal_fields:
  assumes "getElementById ''modal-title'' p = Some title"
    and "getElementById ''modal-details'' p = Some details"
    and "getElementById ''modal-user'' p = Some userField"
    and "getElementById ''modal-score'' p = Some scoreField"
    and "getElementById ''modal-time'' p = Some timeField"
    and "getElementById ''modal'' p = Some modal"
    and "\<forall>field\<in>set [title, details, userField, scoreField, timeField].
           \<forall>d\<in>set [title, details, userField, scoreField, timeField, modal]. \<not> inside p d field"
    and "plain summary" and "plain user" and "user \<noteq> ''''"
    and "plain score" and "plain time" and "time \<noteq> ''''"
  shows "\<exists>p'. openModal (Str summary) (Str user) (Str score) (Str time) p = Inr p'
           \<and> innerText_of ''modal-title'' p' = Some (''Action by '' @ user)
           \<and> innerText_of ''modal-details'' p' = Some summary
           \<and> innerText_of ''modal-user'' p' = Some user
           \<and> innerText_of ''modal-score'' p' = Some (''+'' @ score @ '' pts'')
           \<and> innerText_of ''modal-time'' p' = Some (''Time: '' @ time)
           \<and> display_of ''modal'' p' = Some ''block''"
proof -
  let ?hs = "[(''modal-title'', title), (''modal-details'', details), (''modal-user'', userField),
              (''modal-score'', scoreField), (''modal-time'', timeField), (''modal'', modal)]"
  let ?F = "[title, details, userField, scoreField, timeField]"
  let ?p0 = "p\<lparr>openModal_calls := openModal_calls p @ [(Str summary, Str user, Str score, Str time)]\<rparr>"
  let ?p1 = "set_innerText_at title (''Action by '' @ user) ?p0"
  let ?p2 = "set_innerText_at details summary ?p1"
  let ?p3 = "set_innerText_at userField user ?p2"
  let ?p4 = "set_innerText_at scoreField (''+'' @ score @ '' pts'') ?p3"
  let ?p5 = "set_innerText_at timeField (''Time: '' @ time) ?p4"
  let ?p6 = "update_element modal (\<lambda>e. e\<lparr>style_display := ''block''\<rparr>) ?p5"
  have loc0: "\<forall>(i, d)\<in>set ?hs. getElementById i ?p0 = Some d"
    using assms(1-6) by simp
  have ap0: "\<forall>a\<in>set ?F. \<forall>(i, d)\<in>set ?hs. \<not> inside ?p0 d a"
    using assms(7) by (simp add: inside_same_elements [of ?p0 p])
  note s1 = modal_step [OF loc0 ap0, of title "''Action by '' @ user"]
  have loc1: "\<forall>(i, d)\<in>set ?hs. getElementById i ?p1 = Some d"
    and ap1: "\<forall>a\<in>set ?F. \<forall>(i, d)\<in>set ?hs. \<not> inside ?p1 d a"
    by (rule s1, simp)+
  note s2 = modal_step [OF loc1 ap1, of details summary]
  have loc2: "\<forall>(i, d)\<in>set ?hs. getElementById i ?p2 = Some d"
    and ap2: "\<forall>a\<in>set ?F. \<forall>(i, d)\<in>set ?hs. \<not> inside ?p2 d a"
    by (rule s2, simp)+
  note s3 = modal_step [OF loc2 ap2, of userField user]
  have loc3: "\<forall>(i, d)\<in>set ?hs. getElementById i ?p3 = Some d"
    and ap3: "\<forall>a\<in>set ?F. \<forall>(i, d)\<in>set ?hs. \<not> inside ?p3 d a"
    by (rule s3, simp)+
  note s4 = modal_step [OF loc3 ap3, of scoreField "''+'' @ score @ '' pts''"]
  have loc4: "\<forall>(i, d)\<in>set ?hs. getElementById i ?p4 = Some d"
    and ap4: "\<forall>a\<in>set ?F. \<forall>(i, d)\<in>set ?hs. \<not> inside ?p4 d a"
    by (rule s4, simp)+
  note s5 = modal_step [OF loc4 ap4, of timeField "''Time: '' @ time"]
  have loc5: "\<forall>(i, d)\<in>set ?hs. getElementById i ?p5 = Some d"
    by (rule s5, simp)
  have loc6: "\<forall>(i, d)\<in>set ?hs. getElementById i ?p6 = Some d"
    using loc5 by simp
  have runs: "openModal (Str summary) (Str user) (Str score) (Str time) p = Inr ?p6"
  proof -
    have "getElementById ''modal-title'' ?p0 = Some title" using loc0 by simp
    moreover have "getElementById ''modal-details'' ?p1 = Some details" using loc1 by simp
    moreover have "getElementById ''modal-user'' ?p2 = Some userField" using loc2 by simp
    moreover have "getElementById ''modal-score'' ?p3 = Some scoreField" using loc3 by simp
    moreover have "getElementById ''modal-time'' ?p4 = Some timeField" using loc4 by simp
    moreover have "getElementById ''modal'' ?p5 = Some modal" using loc5 by simp
    ultimately show ?thesis
      by (simp add: openModal_def entered_openModal_def set_style_display_def)
  qed
  have len: "title < length (elements p)" "details < length (elements p)"
    "userField < length (elements p)" "scoreField < length (elements p)"
    "timeField < length (elements p)" "modal < length (elements p)"
    using assms(1-6) by (auto dest: getElementById_SomeD(1))
  have ne: "title \<noteq> details" "title \<noteq> userField" "title \<noteq> scoreField" "title \<noteq> timeField"
    "details \<noteq> userField" "details \<noteq> scoreField" "details \<noteq> timeField"
    "userField \<noteq> scoreField" "userField \<noteq> timeField" "scoreField \<noteq> timeField"
    using assms(1-6) by (auto dest: getElementById_inj)
  have texts: "content_text (elements ?p6 ! title) = ''Action by '' @ user"
    "content_text (elements ?p6 ! details) = summary"
    "content_text (elements ?p6 ! userField) = user"
    "content_text (elements ?p6 ! scoreField) = ''+'' @ score @ '' pts''"
    "content_text (elements ?p6 ! timeField) = ''Time: '' @ time"
    using len ne by (simp_all add: nth_update_same)
  have pl: "plain (''Action by '' @ user)" "plain (''+'' @ score @ '' pts'')" "plain (''Time: '' @ time)"
    by (rule plain_modal_texts(1) [OF assms(9) assms(10)],
        rule plain_modal_texts(2) [OF assms(11)],
        rule plain_modal_texts(3) [OF assms(12) assms(13)])
  have r1: "innerText_of ''modal-title'' ?p6 = Some (''Action by '' @ user)"
    by (rule read_plain [OF _ texts(1) pl(1)]) (use loc6 in simp)
  have r2: "innerText_of ''modal-details'' ?p6 = Some summary"
    by (rule read_plain [OF _ texts(2) assms(8)]) (use loc6 in simp)
  have r3: "innerText_of ''modal-user'' ?p6 = Some user"
    by (rule read_plain [OF _ texts(3) assms(9)]) (use loc6 in simp)
  have r4: "innerText_of ''modal-score'' ?p6 = Some (''+'' @ score @ '' pts'')"
    by (rule read_plain [OF _ texts(4) pl(2)]) (use loc6 in simp)
  have r5: "innerText_of ''modal-time'' ?p6 = Some (''Time: '' @ time)"
    by (rule read_plain [OF _ texts(5) pl(3)]) (use loc6 in simp)
  have "getElementById ''modal'' ?p5 = Some modal" using loc5 by simp
  then have r6: "display_of ''modal'' ?p6 = Some ''block''" by simp
  from runs r1 r2 r3 r4 r5 r6 show ?thesis by blast
qed

theorem openModal_fields_witness:
  "getElementById ''modal-title'' example_page = Some 8
   \<and> getElementById ''modal-details'' example_page = Some 9
   \<and> getElementById ''modal-user'' example_page = Some 10
   \<and> getElementById ''modal-score'' example_page = Some 11
   \<and> getElementById ''modal-time'' example_page = Some 12
   \<and> getElementById ''modal'' example_page = Some 6
   \<and> list_all (\<lambda>field. list_all (\<lambda>d. \<not> inside example_page d field) [8, 9, 10, 11, 12, 6])
        [8, 9, 10, 11, 12]
   \<and> plain ''Did X'' \<and> plain ''Alice'' \<and> ''Alice'' \<noteq> '''' \<and> plain ''5''
   \<and> plain ''2024-01-01'' \<and> ''2024-01-01'' \<noteq> ''''
   \<and> (\<exists>p'. openModal (Str ''Did X'') (Str ''Alice'') (Str ''5'') (Str ''2024-01-01'') example_page = Inr p'
           \<and> innerText_of ''modal-title'' p' = Some ''Action by Alice''
           \<and> innerText_of ''modal-details'' p' = Some ''Did X''
           \<and> innerText_of ''modal-user'' p' = Some ''Alice''
           \<and> innerText_of ''modal-score'' p' = Some ''+5 pts''
           \<and> innerText_of ''modal-time'' p' = Some ''Time: 2024-01-01''
           \<and> display_of ''modal'' p' = Some ''block'')"
proof -
  have h: "getElementById ''modal-title'' example_page = Some 8"
    "getElementById ''modal-details'' example_page = Some 9"
    "getElementById ''modal-user'' example_page = Some 10"
    "getElementById ''modal-score'' example_page = Some 11"
    "getElementById ''modal-time'' example_page = Some 12"
    "getElementById ''modal'' example_page = Some 6"
    by code_simp+
  have a: "list_all (\<lambda>field. list_all (\<lambda>d. \<not> inside example_page d field) [8, 9, 10, 11, 12, 6])
        [8, 9, 10, 11, 12]"
    by code_simp
  then have a': "\<forall>field\<in>set [8, 9, 10, 11, 12]. \<forall>d\<in>set [8, 9, 10, 11, 12, 6].
                   \<not> inside example_page d field"
    by (simp only: list_all_iff)
  have s: "plain ''Did X''" "plain ''Alice''" "''Alice'' \<noteq> ''''" "plain ''5''"
    "plain ''2024-01-01''" "''2024-01-01'' \<noteq> ''''"
    by code_simp+
  from openModal_fields [OF h a' s] h a s show ?thesis by simp
qed

text \<open>
  The getter trims. With an empty user the title is assigned \<open>Action by\<close> and a
  space, and reads back without the space.
\<close>

theorem openModal_empty_user_counterexample:
  "returns (openModal (Str ''Did X'') (Str '''') (Str ''5'') (Str ''2024-01-01'') example_page)
   \<and> innerText_of ''modal-title''
        (page_of (openModal (Str ''Did X'') (Str '''') (Str ''5'') (Str ''2024-01-01'') example_page))
       = Some ''Action by''
   \<and> innerText_of ''modal-title''
        (page_of (openModal (Str ''Did X'') (Str '''') (Str ''5'') (Str ''2024-01-01'') example_page))
       \<noteq> Some (''Action by '' @ '''')"
  by code_simp

text \<open>
  Other inputs, on the example page: a run of spaces reads as one space, a line feed
  stays, a missing data attribute arrives as \<open>undefined\<close> and shows as that word, and
  \<open>null\<close> shows as \<open>null\<close> in the title and as nothing in the details.
\<close>

lemma openModal_other_inputs:
  "innerText_of ''modal-details''
     (page_of (openModal (Str ''a   b '') (Str ''Alice'') (Str ''5'') (Str ''now'') example_page))
     = Some ''a b''"
  "innerText_of ''modal-details''
     (page_of (openModal (Str (''l1'' @ [CHR 0x0A] @ ''l2'')) (Str ''Alice'') (Str ''5'') (Str ''now'') example_page))
     = Some (''l1'' @ [CHR 0x0A] @ ''l2'')"
  "innerText_of ''modal-details''
     (page_of (openModal Undefined Undefined (Str ''5'') (Str ''now'') example_page))
     = Some ''undefined''"
  "innerText_of ''modal-title''
     (page_of (openModal Undefined Undefined (Str ''5'') (Str ''now'') example_page))
     = Some ''Action by undefined''"
  "innerText_of ''modal-title''
     (page_of (openModal Null Null (Str ''5'') (Str ''now'') example_page))
     = Some ''Action by null''"
  "innerText_of ''modal-details''
     (page_of (openModal Null Null (Str ''5'') (Str ''now'') example_page))
     = Some ''''"
  by code_simp+

text \<open>
  A field inside another field. Writing the title removes the user field from the
  document, so the lookup on line 4 returns \<open>null\<close> and \<open>openModal\<close> ends in a
  TypeError with title and details written.
\<close>

lemma openModal_nested_fields_fault:
  "inside nested_fields_page 10 8"
  "(case openModal (Str ''Did X'') (Str ''Alice'') (Str ''5'') (Str ''2024-01-01'') nested_fields_page of
      Inl (e, q) \<Rightarrow> e = TypeError \<and> getElementById ''modal-user'' q = None
                     \<and> innerText_of ''modal-details'' q = Some ''Did X''
                     \<and> innerText_of ''modal-score'' q = Some ''''
    | Inr q \<Rightarrow> False)"
  by code_simp+

text \<open>
  C2. In every page returned by \<open>openModal\<close>, each of the three close triggers returns
  and leaves \<open>style.display\<close> of the modal at \<open>none\<close>: the handler of the close
  control, the window click handler when the click target is the modal element itself,
  and the keydown handler when the key is Escape.
\<close>

theorem close_triggers_hide:
  assumes "openModal summary user score time p = Inr p'"
  shows "(\<exists>q. close_onclick p' = Inr q \<and> display_of ''modal'' q = Some ''none'')
       \<and> (\<forall>event. getElementById ''modal'' p' = Some (target event) \<longrightarrow>
             (\<exists>q. window_onclick event p' = Inr q \<and> display_of ''modal'' q = Some ''none''))
       \<and> (\<forall>event. key event = ''Escape'' \<longrightarrow>
             (\<exists>q. document_keydown event p' = Inr q \<and> display_of ''modal'' q = Some ''none''))"
proof -
  from openModal_returns_modal [OF assms] obtain m where m: "getElementById ''modal'' p' = Some m"
    by auto
  show ?thesis using hide_on_trigger [OF m] m by auto
qed

theorem close_triggers_hide_witness:
  "openModal (Str ''Did X'') (Str ''Alice'') (Str ''5'') (Str ''2024-01-01'') example_page = Inr opened_page
   \<and> display_of ''modal'' opened_page = Some ''block''
   \<and> (\<exists>q. close_onclick opened_page = Inr q \<and> display_of ''modal'' q = Some ''none'')
   \<and> getElementById ''modal'' opened_page = Some (target \<lparr>target = 6\<rparr>)
   \<and> (\<exists>q. window_onclick \<lparr>target = 6\<rparr> opened_page = Inr q \<and> display_of ''modal'' q = Some ''none'')
   \<and> key \<lparr>key = ''Escape''\<rparr> = ''Escape''
   \<and> (\<exists>q. document_keydown \<lparr>key = ''Escape''\<rparr> opened_page = Inr q \<and> display_of ''modal'' q = Some ''none'')"
proof -
  have h: "openModal (Str ''Did X'') (Str ''Alice'') (Str ''5'') (Str ''2024-01-01'') example_page = Inr opened_page"
    by code_simp
  have b: "display_of ''modal'' opened_page = Some ''block''" by code_simp
  have t: "getElementById ''modal'' opened_page = Some (target \<lparr>target = 6\<rparr>)" by code_simp
  show ?thesis using close_triggers_hide [OF h] h b t by simp
qed

text \<open>
  The window handler does nothing for any other target, and the keydown handler nothing
  for any other key.
\<close>

lemma other_events_leave_page:
  "getElementById ''modal'' p \<noteq> Some (target event) \<Longrightarrow> window_onclick event p = Inr p"
  "key kev \<noteq> ''Escape'' \<Longrightarrow> document_keydown kev p = Inr p"
  by (auto simp: window_onclick_def document_keydown_def)

section \<open>Claims about the theme\<close>

text \<open>
  C3. From a page whose theme attribute is light or dark and whose toggle control holds
  an icon, two clicks on the toggle both return; the first flips the theme attribute, the
  second brings it back to its starting value, and after each of the two the value stored
  under the key \<open>theme\<close> equals the theme attribute of the page.
\<close>

theorem toggle_twice:
  assumes "theme_attribute p = Some t" and "t = ''light'' \<or> t = ''dark''"
    and "element_querySelector themeToggle (ByTag ''i'') p \<noteq> None"
  shows "\<exists>p1 p2. themeToggle_click themeToggle p = Inr p1
           \<and> themeToggle_click themeToggle p1 = Inr p2
           \<and> theme_attribute p1 = Some (if t = ''dark'' then ''light'' else ''dark'')
           \<and> theme_attribute p2 = Some t
           \<and> getItem ''theme'' p1 = theme_attribute p1
           \<and> getItem ''theme'' p2 = theme_attribute p2"
proof -
  from assms(1) obtain b where b: "document_body p = Some b"
    by (auto simp: theme_attribute_def split: option.splits)
  from assms(3) obtain i where i: "element_querySelector themeToggle (ByTag ''i'') p = Some i"
    by auto
  from themeToggle_click_result [OF b i] obtain p1 where
    p1: "themeToggle_click themeToggle p = Inr p1"
      "theme_attribute p1 = Some (if theme_attribute p = Some ''dark'' then ''light'' else ''dark'')"
      "getItem ''theme'' p1 = theme_attribute p1"
      "document_body p1 = Some b"
      "element_querySelector themeToggle (ByTag ''i'') p1 = Some i"
    by blast
  from themeToggle_click_result [OF p1(4) p1(5)] obtain p2 where
    p2: "themeToggle_click themeToggle p1 = Inr p2"
      "theme_attribute p2 = Some (if theme_attribute p1 = Some ''dark'' then ''light'' else ''dark'')"
      "getItem ''theme'' p2 = theme_attribute p2"
    by blast
  have flip: "theme_attribute p1 = Some (if t = ''dark'' then ''light'' else ''dark'')"
    using assms(1) p1(2) by simp
  have restored: "theme_attribute p2 = Some t"
    using assms(2) flip p2(2) by auto
  from p1(1,3) p2(1,3) flip restored show ?thesis by blast
qed

theorem toggle_twice_witness:
  "theme_attribute loaded_page = Some ''dark'' \<and> (''dark'' = ''light'' \<or> ''dark'' = ''dark'')
   \<and> element_querySelector 2 (ByTag ''i'') loaded_page \<noteq> None
   \<and> (\<exists>p1 p2. themeToggle_click 2 loaded_page = Inr p1
           \<and> themeToggle_click 2 p1 = Inr p2
           \<and> theme_attribute p1 = Some ''light''
           \<and> theme_attribute p2 = Some ''dark''
           \<and> getItem ''theme'' p1 = theme_attribute p1
           \<and> getItem ''theme'' p2 = theme_attribute p2)"
proof -
  have a: "theme_attribute loaded_page = Some ''dark''" by code_simp
  have c: "element_querySelector 2 (ByTag ''i'') loaded_page \<noteq> None" by code_simp
  show ?thesis using a c toggle_twice [OF a _ c] by simp
qed

text \<open>
  C4. With the toggle control and the body present, initialization resolves the theme as
  follows: a saved preference that is not the empty string is used as it is; with no
  saved preference, or an empty one, the theme is dark when the system signal is true and
  light when it is false.
\<close>

theorem theme_init_resolves:
  assumes "getElementById ''themeToggle'' p \<noteq> None" and "document_body p \<noteq> None"
  shows "(\<forall>s. getItem ''theme'' p = Some s \<and> s \<noteq> '''' \<longrightarrow>
            theme_attribute (page_of (theme_init p)) = Some s)
       \<and> ((getItem ''theme'' p = None \<or> getItem ''theme'' p = Some '''') \<and> prefersDark p \<longrightarrow>
            theme_attribute (page_of (theme_init p)) = Some ''dark'')
       \<and> ((getItem ''theme'' p = None \<or> getItem ''theme'' p = Some '''') \<and> \<not> prefersDark p \<longrightarrow>
            theme_attribute (page_of (theme_init p)) = Some ''light'')"
proof -
  from assms obtain tt b where "getElementById ''themeToggle'' p = Some tt" "document_body p = Some b"
    by auto
  from theme_init_theme [OF this] show ?thesis
    by (auto simp: js_or_def)
qed

theorem theme_init_resolves_witness:
  "getElementById ''themeToggle'' saved_light_page \<noteq> None \<and> document_body saved_light_page \<noteq> None
   \<and> getItem ''theme'' saved_light_page = Some ''light'' \<and> ''light'' \<noteq> ''''
   \<and> theme_attribute (page_of (theme_init saved_light_page)) = Some ''light''
   \<and> getElementById ''themeToggle'' example_page \<noteq> None \<and> document_body example_page \<noteq> None
   \<and> getItem ''theme'' example_page = None \<and> prefersDark example_page
   \<and> theme_attribute (page_of (theme_init example_page)) = Some ''dark''
   \<and> getElementById ''themeToggle'' light_system_page \<noteq> None \<and> document_body light_system_page \<noteq> None
   \<and> getItem ''theme'' light_system_page = None \<and> \<not> prefersDark light_system_page
   \<and> theme_attribute (page_of (theme_init light_system_page)) = Some ''light''"
proof -
  have a: "getElementById ''themeToggle'' saved_light_page \<noteq> None" "document_body saved_light_page \<noteq> None"
    "getItem ''theme'' saved_light_page = Some ''light''"
    by code_simp+
  have b: "getElementById ''themeToggle'' example_page \<noteq> None" "document_body example_page \<noteq> None"
    "getItem ''theme'' example_page = None" "prefersDark example_page"
    by code_simp+
  have c: "getElementById ''themeToggle'' light_system_page \<noteq> None" "document_body light_system_page \<noteq> None"
    "getItem ''theme'' light_system_page = None" "\<not> prefersDark light_system_page"
    by code_simp+
  show ?thesis
    using a b c theme_init_resolves [OF a(1,2)] theme_init_resolves [OF b(1,2)]
      theme_init_resolves [OF c(1,2)]
    by simp
qed

text \<open>
  A saved preference has priority over the system signal. With \<open>light\<close> saved and a
  system that prefers dark, the resolved theme is light, although one of the two sources
  indicates dark.
\<close>

theorem theme_init_either_source_counterexample:
  "getElementById ''themeToggle'' saved_light_page = Some 2
   \<and> getItem ''theme'' saved_light_page = Some ''light''
   \<and> prefersDark saved_light_page
   \<and> theme_attribute (page_of (theme_init saved_light_page)) = Some ''light''
   \<and> theme_attribute (page_of (theme_init saved_light_page)) \<noteq> Some ''dark''"
  by code_simp

text \<open>
  C7. On a page with the toggle control and a body, let the stored theme be absent, empty,
  \<open>light\<close> or \<open>dark\<close>, or let at least one toggle have happened: after
  initialization and \<open>n\<close> toggles the theme attribute is \<open>light\<close> or \<open>dark\<close>.
\<close>

theorem theme_two_states:
  assumes "getElementById ''themeToggle'' p = Some themeToggle" and "document_body p \<noteq> None"
    and "getItem ''theme'' p = None \<or> getItem ''theme'' p = Some ''''
         \<or> getItem ''theme'' p = Some ''light'' \<or> getItem ''theme'' p = Some ''dark'' \<or> 0 < n"
  shows "theme_attribute (toggles n themeToggle (page_of (theme_init p))) = Some ''light''
       \<or> theme_attribute (toggles n themeToggle (page_of (theme_init p))) = Some ''dark''"
proof -
  from assms(2) obtain b where b: "document_body p = Some b" by auto
  have body: "document_body (page_of (theme_init p)) = Some b"
    using b by (simp add: theme_init_body)
  have "theme_attribute (page_of (theme_init p)) = Some ''light''
        \<or> theme_attribute (page_of (theme_init p)) = Some ''dark'' \<or> 0 < n"
    using assms(3) theme_init_theme [OF assms(1) b] by (auto simp: js_or_def)
  with body show ?thesis by (rule toggles_two_states)
qed

theorem theme_two_states_witness:
  "getElementById ''themeToggle'' example_page = Some 2 \<and> document_body example_page \<noteq> None
   \<and> getItem ''theme'' example_page = None
   \<and> theme_attribute (toggles 3 2 (page_of (theme_init example_page))) = Some ''light''
   \<and> getElementById ''themeToggle'' saved_blue_page = Some 2 \<and> document_body saved_blue_page \<noteq> None
   \<and> (0::nat) < 1
   \<and> theme_attribute (toggles 1 2 (page_of (theme_init saved_blue_page))) = Some ''dark''"
proof -
  have a: "getElementById ''themeToggle'' example_page = Some 2" "document_body example_page \<noteq> None"
    "getItem ''theme'' example_page = None"
    by code_simp+
  have b: "getElementById ''themeToggle'' saved_blue_page = Some 2" "document_body saved_blue_page \<noteq> None"
    by code_simp+
  have c: "theme_attribute (toggles 3 2 (page_of (theme_init example_page))) \<noteq> Some ''dark''"
    "theme_attribute (toggles 1 2 (page_of (theme_init saved_blue_page))) \<noteq> Some ''light''"
    by code_simp+
  show ?thesis
    using a b c theme_two_states [OF a(1,2), of 3] theme_two_states [OF b(1,2), of 1]
    by simp
qed

text \<open>
  The stored value is not checked. With \<open>blue\<close> stored under the key \<open>theme\<close>, the
  theme attribute after initialization, before any toggle, is \<open>blue\<close>.
\<close>

theorem theme_third_state_counterexample:
  "getElementById ''themeToggle'' saved_blue_page = Some 2
   \<and> getItem ''theme'' saved_blue_page = Some ''blue''
   \<and> theme_attribute (toggles 0 2 (page_of (theme_init saved_blue_page))) = Some ''blue''"
  by code_simp

text \<open>
  C10. Without a toggle control, theme initialization returns the page untouched. With a
  toggle control that holds no icon element, theme initialization ends in a TypeError
  after the theme attribute is written and before the click listener is registered, and
  the toggle handler ends in a TypeError after the theme attribute is flipped and before
  the theme is stored.
\<close>

theorem icon_absent_faults:
  "(getElementById ''themeToggle'' p = None \<longrightarrow> theme_init p = Inr p)
   \<and> (getElementById ''themeToggle'' p = Some themeToggle
        \<and> element_querySelector themeToggle (ByTag ''i'') p = None \<longrightarrow>
        (\<exists>q. theme_init p = Inl (TypeError, q) \<and> listeners q = listeners p
              \<and> (document_body p \<noteq> None \<longrightarrow> theme_attribute q =
                    Some (js_or (getItem ''theme'' p) (if prefersDark p then ''dark'' else ''light'')))))
   \<and> (element_querySelector themeToggle (ByTag ''i'') p = None \<longrightarrow>
        (\<exists>q. themeToggle_click themeToggle p = Inl (TypeError, q)
              \<and> getItem ''theme'' q = getItem ''theme'' p
              \<and> (document_body p \<noteq> None \<longrightarrow> theme_attribute q =
                    Some (if theme_attribute p = Some ''dark'' then ''light'' else ''dark''))))"
proof (intro conjI impI)
  assume "getElementById ''themeToggle'' p = None"
  then show "theme_init p = Inr p" by (simp add: theme_init_def)
next
  assume "getElementById ''themeToggle'' p = Some themeToggle
        \<and> element_querySelector themeToggle (ByTag ''i'') p = None"
  then show "\<exists>q. theme_init p = Inl (TypeError, q) \<and> listeners q = listeners p
              \<and> (document_body p \<noteq> None \<longrightarrow> theme_attribute q =
                    Some (js_or (getItem ''theme'' p) (if prefersDark p then ''dark'' else ''light'')))"
    by (cases "document_body p")
       (simp_all add: theme_init_def Let_def call_setAttribute_def set_className_def
          theme_attribute_set)
next
  assume "element_querySelector themeToggle (ByTag ''i'') p = None"
  then show "\<exists>q. themeToggle_click themeToggle p = Inl (TypeError, q)
              \<and> getItem ''theme'' q = getItem ''theme'' p
              \<and> (document_body p \<noteq> None \<longrightarrow> theme_attribute q =
                    Some (if theme_attribute p = Some ''dark'' then ''light'' else ''dark''))"
    by (cases "document_body p")
       (simp_all add: themeToggle_click_def Let_def call_setAttribute_def set_className_def
          theme_attribute_set theme_attribute_body [symmetric])
qed

theorem icon_absent_faults_witness:
  "getElementById ''themeToggle'' toggleless_page = None
   \<and> theme_init toggleless_page = Inr toggleless_page
   \<and> getElementById ''themeToggle'' iconless_page = Some 2
   \<and> element_querySelector 2 (ByTag ''i'') iconless_page = None
   \<and> document_body iconless_page \<noteq> None
   \<and> (\<exists>q. theme_init iconless_page = Inl (TypeError, q) \<and> listeners q = listeners iconless_page
          \<and> theme_attribute q = Some ''dark'')
   \<and> (\<exists>q. themeToggle_click 2 iconless_page = Inl (TypeError, q)
          \<and> getItem ''theme'' q = getItem ''theme'' iconless_page
          \<and> theme_attribute q = Some ''dark'')"
proof -
  have a: "getElementById ''themeToggle'' toggleless_page = None" by code_simp
  have b: "getElementById ''themeToggle'' iconless_page = Some 2"
    "element_querySelector 2 (ByTag ''i'') iconless_page = None"
    "document_body iconless_page \<noteq> None"
    "getItem ''theme'' iconless_page = None" "prefersDark iconless_page"
    "theme_attribute iconless_page = None"
    by code_simp+
  show ?thesis
    using a b icon_absent_faults [of toggleless_page 2] icon_absent_faults [of iconless_page 2]
    by (simp add: js_or_def)
qed

section \<open>Claims about card delegation\<close>

text \<open>
  C5. When the nearest element marked as an action card on the chain from the click
  target upwards (the target included) carries summary \<open>Did X\<close>, user \<open>Alice\<close>,
  score \<open>5\<close> and time \<open>2024-01-01\<close>, the click handler does what one call of
  \<open>openModal\<close> with these four arguments does, and the record of invocations grows by
  exactly that one entry.
\<close>

theorem card_click_opens_nearest_card:
  assumes "inclusive_ancestors p (target event) = pre @ cardElement # post"
    and "\<forall>a\<in>set pre. \<not> matches (ByClass ''action-card-modern'') (elements p ! a)"
    and "matches (ByClass ''action-card-modern'') (elements p ! cardElement)"
    and "dataset (elements p ! cardElement) ''summary'' = Str ''Did X''"
    and "dataset (elements p ! cardElement) ''user'' = Str ''Alice''"
    and "dataset (elements p ! cardElement) ''score'' = Str ''5''"
    and "dataset (elements p ! cardElement) ''time'' = Str ''2024-01-01''"
  shows "card_click event p =
           openModal (Str ''Did X'') (Str ''Alice'') (Str ''5'') (Str ''2024-01-01'') p
       \<and> openModal_calls (page_of (card_click event p)) =
           openModal_calls p @ [(Str ''Did X'', Str ''Alice'', Str ''5'', Str ''2024-01-01'')]"
  using card_click_nearest [OF assms(1,2,3)] assms(4,5,6,7)
  by (simp add: openModal_calls_log)

theorem card_click_opens_nearest_card_witness:
  "inclusive_ancestors example_page (target \<lparr>target = 5\<rparr>) = [5] @ 4 # [1, 0]
   \<and> \<not> matches (ByClass ''action-card-modern'') (elements example_page ! 5)
   \<and> matches (ByClass ''action-card-modern'') (elements example_page ! 4)
   \<and> dataset (elements example_page ! 4) ''summary'' = Str ''Did X''
   \<and> dataset (elements example_page ! 4) ''user'' = Str ''Alice''
   \<and> dataset (elements example_page ! 4) ''score'' = Str ''5''
   \<and> dataset (elements example_page ! 4) ''time'' = Str ''2024-01-01''
   \<and> card_click \<lparr>target = 5\<rparr> example_page =
        openModal (Str ''Did X'') (Str ''Alice'') (Str ''5'') (Str ''2024-01-01'') example_page
   \<and> openModal_calls (page_of (card_click \<lparr>target = 5\<rparr> example_page)) =
        openModal_calls example_page @ [(Str ''Did X'', Str ''Alice'', Str ''5'', Str ''2024-01-01'')]"
proof -
  have h: "inclusive_ancestors example_page (target \<lparr>target = 5\<rparr>) = [5] @ 4 # [1, 0]"
    "\<forall>a\<in>set [5]. \<not> matches (ByClass ''action-card-modern'') (elements example_page ! a)"
    "matches (ByClass ''action-card-modern'') (elements example_page ! 4)"
    "dataset (elements example_page ! 4) ''summary'' = Str ''Did X''"
    "dataset (elements example_page ! 4) ''user'' = Str ''Alice''"
    "dataset (elements example_page ! 4) ''score'' = Str ''5''"
    "dataset (elements example_page ! 4) ''time'' = Str ''2024-01-01''"
    by code_simp+
  have n: "\<not> matches (ByClass ''action-card-modern'') (elements example_page ! 5)"
    by code_simp
  from card_click_opens_nearest_card [OF h] h n show ?thesis by blast
qed

text \<open>
  A card nested in a card. The click target (element 13) lies inside the outer card
  (element 4), which carries the four fields above, and inside the inner card (element
  5); the handler opens the modal once, with the data of the inner card.
\<close>

theorem card_click_outer_card_counterexample:
  "4 \<in> set (inclusive_ancestors nested_cards_page (target \<lparr>target = 13\<rparr>))
   \<and> matches (ByClass ''action-card-modern'') (elements nested_cards_page ! 4)
   \<and> dataset (elements nested_cards_page ! 4) ''summary'' = Str ''Did X''
   \<and> dataset (elements nested_cards_page ! 4) ''user'' = Str ''Alice''
   \<and> dataset (elements nested_cards_page ! 4) ''score'' = Str ''5''
   \<and> dataset (elements nested_cards_page ! 4) ''time'' = Str ''2024-01-01''
   \<and> openModal_calls (page_of (card_click \<lparr>target = 13\<rparr> nested_cards_page)) =
        [(Str ''Did Y'', Str ''Bob'', Str ''7'', Str ''2024-02-02'')]
   \<and> openModal_calls (page_of (card_click \<lparr>target = 13\<rparr> nested_cards_page)) \<noteq>
        [(Str ''Did X'', Str ''Alice'', Str ''5'', Str ''2024-01-01'')]"
  by code_simp

text \<open>
  C6. When no element on the chain from the click target upwards (the target included)
  is marked as an action card, the click handler returns the page as it is:
  \<open>openModal\<close> is not invoked.
\<close>

theorem card_click_ignores_other_clicks:
  assumes "\<forall>a\<in>set (inclusive_ancestors p (target event)).
             \<not> matches (ByClass ''action-card-modern'') (elements p ! a)"
  shows "card_click event p = Inr p
       \<and> openModal_calls (page_of (card_click event p)) = openModal_calls p"
proof -
  have "closest (ByClass ''action-card-modern'') (target event) p = None"
    unfolding closest_def using assms by (simp add: find_None_iff)
  then show ?thesis by (simp add: card_click_def)
qed

theorem card_click_ignores_other_clicks_witness:
  "inclusive_ancestors example_page (target \<lparr>target = 7\<rparr>) = [7, 6, 1, 0]
   \<and> \<not> matches (ByClass ''action-card-modern'') (elements example_page ! 7)
   \<and> \<not> matches (ByClass ''action-card-modern'') (elements example_page ! 6)
   \<and> \<not> matches (ByClass ''action-card-modern'') (elements example_page ! 1)
   \<and> \<not> matches (ByClass ''action-card-modern'') (elements example_page ! 0)
   \<and> card_click \<lparr>target = 7\<rparr> example_page = Inr example_page
   \<and> openModal_calls (page_of (card_click \<lparr>target = 7\<rparr> example_page)) = openModal_calls example_page"
proof -
  have h: "\<forall>a\<in>set (inclusive_ancestors example_page (target \<lparr>target = 7\<rparr>)).
             \<not> matches (ByClass ''action-card-modern'') (elements example_page ! a)"
    by code_simp
  have c: "inclusive_ancestors example_page (target \<lparr>target = 7\<rparr>) = [7, 6, 1, 0]"
    "\<not> matches (ByClass ''action-card-modern'') (elements example_page ! 7)"
    "\<not> matches (ByClass ''action-card-modern'') (elements example_page ! 6)"
    "\<not> matches (ByClass ''action-card-modern'') (elements example_page ! 1)"
    "\<not> matches (ByClass ''action-card-modern'') (elements example_page ! 0)"
    by code_simp+
  from card_click_ignores_other_clicks [OF h] c show ?thesis by blast
qed

section \<open>Claims about the two files and the two controllers\<close>

text \<open>
  C8. The two files agree on every operation both define: \<open>openModal\<close>, the three
  close handlers, theme initialization and the toggle handler are equal functions. The
  top level of script.js is the top level of the other file followed by two more
  statements, the registration of the card click listener on the body and the style rule
  appended to the head; the other file has nothing that script.js lacks.
\<close>

theorem copies_agree_on_shared_part:
  "p0_openModal = openModal
   \<and> p0_close_onclick = close_onclick
   \<and> p0_window_onclick = window_onclick
   \<and> p0_document_keydown = document_keydown
   \<and> p0_theme_init = theme_init
   \<and> p0_themeToggle_click = themeToggle_click
   \<and> script_js =
       (\<lambda>p. case part_000 p of
               Inl f \<Rightarrow> Inl f
             | Inr q \<Rightarrow>
                 run [(\<lambda>p. addEventListener (map_option OnElement (document_body p)) ''click'' CardClick p),
                      head_appendStyle card_style] q)"
proof -
  have 1: "p0_openModal = openModal"
    by (intro ext) (simp add: p0_openModal_def openModal_def)
  have 2: "p0_close_onclick = close_onclick"
    by (intro ext) (simp add: p0_close_onclick_def close_onclick_def)
  have 3: "p0_window_onclick = window_onclick"
    by (intro ext) (simp add: p0_window_onclick_def window_onclick_def)
  have 4: "p0_document_keydown = document_keydown"
    by (intro ext) (simp add: p0_document_keydown_def document_keydown_def)
  have 5: "p0_theme_init = theme_init"
    by (intro ext) (simp add: p0_theme_init_def theme_init_def)
  have 6: "p0_themeToggle_click = themeToggle_click"
    by (intro ext) (simp add: p0_themeToggle_click_def themeToggle_click_def)
  have sj: "script_js =
      run ([(\<lambda>p. set_onclick (map_option OnElement (querySelector (ByClass ''close'') p)) CloseClick p),
            set_onclick (Some OnWindow) BackdropClick,
            addEventListener (Some OnDocument) ''keydown'' EscapeKey,
            theme_init]
           @ [(\<lambda>p. addEventListener (map_option OnElement (document_body p)) ''click'' CardClick p),
              head_appendStyle card_style])"
    by (simp only: script_js_def append.simps)
  have 7: "script_js =
       (\<lambda>p. case part_000 p of
               Inl f \<Rightarrow> Inl f
             | Inr q \<Rightarrow>
                 run [(\<lambda>p. addEventListener (map_option OnElement (document_body p)) ''click'' CardClick p),
                      head_appendStyle card_style] q)"
    by (intro ext) (simp only: sj run_append part_000_def 5)
  show ?thesis
    by (intro conjI) (rule 1 2 3 4 5 6 7)+
qed

text \<open>
  On the example page both top levels return, but only script.js has registered the
  card listener on the body and appended the style rule to the head.
\<close>

theorem copies_differ_counterexample:
  "returns (script_js example_page) \<and> returns (part_000 example_page)
   \<and> head_styles (page_of (script_js example_page)) = [card_style]
   \<and> head_styles (page_of (part_000 example_page)) = []
   \<and> (OnElement 1, ''click'', CardClick) \<in> set (listeners (page_of (script_js example_page)))
   \<and> (OnElement 1, ''click'', CardClick) \<notin> set (listeners (page_of (part_000 example_page)))
   \<and> script_js example_page \<noteq> part_000 example_page"
  by code_simp

text \<open>
  C9. \<open>openModal\<close> leaves the theme attribute and the stored theme as they were, and a
  click on the toggle leaves \<open>style.display\<close> of the modal and the five text fields as
  they were, whether or not the run ends in a fault.
\<close>

theorem controllers_do_not_interfere:
  "theme_attribute (page_of (openModal summary user score time p)) = theme_attribute p
   \<and> getItem ''theme'' (page_of (openModal summary user score time p)) = getItem ''theme'' p
   \<and> display_of ''modal'' (page_of (themeToggle_click themeToggle p)) = display_of ''modal'' p
   \<and> innerText_of ''modal-title'' (page_of (themeToggle_click themeToggle p)) = innerText_of ''modal-title'' p
   \<and> innerText_of ''modal-details'' (page_of (themeToggle_click themeToggle p)) = innerText_of ''modal-details'' p
   \<and> innerText_of ''modal-user'' (page_of (themeToggle_click themeToggle p)) = innerText_of ''modal-user'' p
   \<and> innerText_of ''modal-score'' (page_of (themeToggle_click themeToggle p)) = innerText_of ''modal-score'' p
   \<and> innerText_of ''modal-time'' (page_of (themeToggle_click themeToggle p)) = innerText_of ''modal-time'' p"
proof -
  have a: "theme_attribute (page_of (openModal summary user score time p)) = theme_attribute p"
    by (rule openModal_frame) simp_all
  have b: "getItem ''theme'' (page_of (openModal summary user score time p)) = getItem ''theme'' p"
    by (rule openModal_frame) simp_all
  have c: "display_of i (page_of (themeToggle_click themeToggle p)) = display_of i p" for i
    by (rule themeToggle_click_frame) auto
  have d: "innerText_of i (page_of (themeToggle_click themeToggle p)) = innerText_of i p" for i
    by (rule themeToggle_click_frame) auto
  from a b c d show ?thesis by simp
qed

theorem controllers_do_not_interfere_witness:
  "theme_attribute (page_of (openModal (Str ''Did X'') (Str ''Alice'') (Str ''5'') (Str ''2024-01-01'') loaded_page))
     = Some ''dark''
   \<and> getItem ''theme'' (page_of (themeToggle_click 2 loaded_page)) = Some ''light''
   \<and> display_of ''modal'' (page_of (themeToggle_click 2 opened_page)) = Some ''block''
   \<and> innerText_of ''modal-title'' (page_of (themeToggle_click 2 opened_page)) = Some ''Action by Alice''"
proof -
  have a: "theme_attribute loaded_page = Some ''dark''"
    "getItem ''theme'' (page_of (themeToggle_click 2 loaded_page)) = Some ''light''"
    "display_of ''modal'' opened_page = Some ''block''"
    "innerText_of ''modal-title'' opened_page = Some ''Action by Alice''"
    by code_simp+
  show ?thesis
    using a
      controllers_do_not_interfere [of "Str ''Did X''" "Str ''Alice''" "Str ''5''" "Str ''2024-01-01''" loaded_page 2]
      controllers_do_not_interfere [of "Str ''Did X''" "Str ''Alice''" "Str ''5''" "Str ''2024-01-01''" opened_page 2]
    by simp
qed

end
